theory Spec2Isabelle
  imports Main
begin

section \<open>TextDBX: a file-backed JSON document store\<close>

text \<open>
  The repository holds three copies of the engine class \<open>TextDBX\<close>:
  \<^item> \<open>textdbx/src/TextDBX.ts\<close>, the basic engine; its functions carry the suffix \<open>_src\<close>;
  \<^item> \<open>textdbx/examples/TextDBX.ts\<close>, the engine with enhanced error handling; suffix \<open>_ex\<close>;
  \<^item> the asynchronous engine with key derivation, cache and transactions, whose text
    follows the command-line front end inside \<open>textdbx/README.md\<close>; suffix \<open>_adv\<close>.
  Each definition below is the translation of one function of one of these copies.
\<close>

subsection \<open>JavaScript values\<close>

text \<open>
  The values a collection file, a filter or a record can hold: what \<open>JSON.parse\<close>
  produces, and \<open>undefined\<close>. Numbers are integers here. Objects are the lists of their
  own properties in enumeration order; the members every object inherits from
  \<open>Object.prototype\<close> (\<open>toString\<close>, \<open>constructor\<close>, ...) are not modelled. An object
  or array that stands inside a record or a filter is a value without identity: the
  engine never mutates below the top level of a record.
\<close>

datatype json =
    JUndefined
  | JNull
  | JBool bool
  | JNum int
  | JStr string
  | JArr "json list"
  | JObj "(string \<times> json) list"

text \<open>
  What the engines throw: a \<open>TypeError\<close> of the runtime, \<open>new Error(message)\<close> (the
  message without its interpolated detail), and the advanced engine's \<open>TextDBXError\<close>
  with its code (its subclasses \<open>ValidationError\<close>, \<open>PermissionError\<close> and
  \<open>TransactionError\<close> are \<open>TextDBXError\<close>s with the codes they pass to the constructor).
\<close>

datatype error = TypeError | Error string | TextDBXError string

text \<open>\<open>!v\<close> is \<open>\<not> truthy v\<close>.\<close>

fun truthy :: "json \<Rightarrow> bool" where
  "truthy JUndefined = False"
| "truthy JNull = False"
| "truthy (JBool b) = b"
| "truthy (JNum n) = (n \<noteq> 0)"
| "truthy (JStr s) = (s \<noteq> [])"
| "truthy (JArr xs) = True"
| "truthy (JObj kvs) = True"

text \<open>
  \<open>a === b\<close>. Two objects or arrays are equal only when they are the same object; a
  value of a filter and a value of a stored record never are.
\<close>

fun strict_eq :: "json \<Rightarrow> json \<Rightarrow> bool" where
  "strict_eq JUndefined JUndefined = True"
| "strict_eq JNull JNull = True"
| "strict_eq (JBool a) (JBool b) = (a = b)"
| "strict_eq (JNum a) (JNum b) = (a = b)"
| "strict_eq (JStr a) (JStr b) = (a = b)"
| "strict_eq a b = False"

text \<open>\<open>xs.includes(x)\<close> on an array.\<close>

definition arr_includes :: "json list \<Rightarrow> json \<Rightarrow> bool" where
  "arr_includes xs x = list_ex (\<lambda>e. strict_eq e x) xs"

text \<open>\<open>s.startsWith(p)\<close> and \<open>s.includes(p)\<close> on strings.\<close>

fun startsWith :: "string \<Rightarrow> string \<Rightarrow> bool" where
  "startsWith s [] = True"
| "startsWith [] (p # ps) = False"
| "startsWith (c # cs) (p # ps) = (c = p \<and> startsWith cs ps)"

fun str_includes :: "string \<Rightarrow> string \<Rightarrow> bool" where
  "str_includes [] p = (p = [])"
| "str_includes (c # cs) p = (startsWith (c # cs) p \<or> str_includes cs p)"

subsection \<open>Property keys\<close>

text \<open>
  A key that is the canonical decimal numeral of an integer below \<open>2^32 - 1\<close> is an array
  index. An object enumerates its array-index keys first, in ascending order, then its
  other keys in the order they were created.
\<close>

definition is_digit :: "char \<Rightarrow> bool" where
  "is_digit c = (48 \<le> (of_char c :: nat) \<and> (of_char c :: nat) \<le> 57)"

definition digits_val :: "string \<Rightarrow> nat" where
  "digits_val s = foldl (\<lambda>n c. 10 * n + ((of_char c :: nat) - 48)) 0 s"

definition array_index :: "string \<Rightarrow> nat option" where
  "array_index s =
     (if s \<noteq> [] \<and> list_all is_digit s \<and> (s = ''0'' \<or> hd s \<noteq> CHR ''0'')
         \<and> digits_val s < 2 ^ 32 - 1
      then Some (digits_val s) else None)"

definition digit_char :: "nat \<Rightarrow> char" where
  "digit_char n = ''0123456789abcdef'' ! n"

function dec :: "nat \<Rightarrow> string" where
  "dec n = (if n < 10 then [digit_char n] else dec (n div 10) @ [digit_char (n mod 10)])"
  by pat_completeness auto
termination
  by (relation "measure id") auto

text \<open>\<open>obj[k] = v\<close>: an existing key keeps its place; a new one goes where enumeration
  puts it.\<close>

fun insert_index :: "nat \<Rightarrow> string \<Rightarrow> json \<Rightarrow> (string \<times> json) list \<Rightarrow> (string \<times> json) list" where
  "insert_index n k v [] = [(k, v)]"
| "insert_index n k v ((k', v') # kvs) =
     (case array_index k' of
        Some m \<Rightarrow> if m < n then (k', v') # insert_index n k v kvs else (k, v) # (k', v') # kvs
      | None \<Rightarrow> (k, v) # (k', v') # kvs)"

definition obj_set :: "(string \<times> json) list \<Rightarrow> string \<Rightarrow> json \<Rightarrow> (string \<times> json) list" where
  "obj_set kvs k v =
     (if k \<in> fst ` set kvs then map (\<lambda>(k', v'). if k' = k then (k', v) else (k', v')) kvs
      else case array_index k of
             Some n \<Rightarrow> insert_index n k v kvs
           | None \<Rightarrow> kvs @ [(k, v)])"

text \<open>The own enumerable properties \<open>for (const key in v)\<close> visits, with their values.\<close>

fun entries :: "json \<Rightarrow> (string \<times> json) list" where
  "entries (JObj kvs) = kvs"
| "entries (JArr xs) = zip (map dec [0..<length xs]) xs"
| "entries (JStr s) = zip (map dec [0..<length s]) (map (\<lambda>c. JStr [c]) s)"
| "entries v = []"

text \<open>
  \<open>v[k]\<close> (and \<open>v.k\<close>): reading a property of \<open>null\<close> or \<open>undefined\<close> throws; a property
  that is not there reads as \<open>undefined\<close>.
\<close>

fun get :: "json \<Rightarrow> string \<Rightarrow> error + json" where
  "get JUndefined k = Inl TypeError"
| "get JNull k = Inl TypeError"
| "get (JObj kvs) k = Inr (case map_of kvs k of Some v \<Rightarrow> v | None \<Rightarrow> JUndefined)"
| "get (JArr xs) k =
     Inr (case array_index k of
            Some i \<Rightarrow> if i < length xs then xs ! i else JUndefined
          | None \<Rightarrow> if k = ''length'' then JNum (int (length xs)) else JUndefined)"
| "get (JStr s) k =
     Inr (case array_index k of
            Some i \<Rightarrow> if i < length s then JStr [s ! i] else JUndefined
          | None \<Rightarrow> if k = ''length'' then JNum (int (length s)) else JUndefined)"
| "get v k = Inr JUndefined"

text \<open>\<open>typeof v === 'object'\<close> holds of objects, arrays and \<open>null\<close>.\<close>

fun typeof_object :: "json \<Rightarrow> bool" where
  "typeof_object JNull = True"
| "typeof_object (JArr xs) = True"
| "typeof_object (JObj kvs) = True"
| "typeof_object v = False"

declare dec.simps [simp del]

text \<open>The value of \<open>v.k\<close> where \<open>v\<close> is known not to be \<open>null\<close> or \<open>undefined\<close>.\<close>

definition member :: "json \<Rightarrow> string \<Rightarrow> json" where
  "member v k = (case get v k of Inr x \<Rightarrow> x | Inl e \<Rightarrow> JUndefined)"

fun is_number :: "json \<Rightarrow> bool" where
  "is_number (JNum n) = True"
| "is_number v = False"

fun is_string :: "json \<Rightarrow> bool" where
  "is_string (JStr s) = True"
| "is_string v = False"

subsection \<open>The filter matcher of the basic and the examples engine\<close>

text \<open>
  \<^verbatim>\<open>
  private matchFilter(row: any, filter: any): boolean {
    if (!filter) return true;
    for (const key in filter) {
      const val = filter[key];
      if (typeof val === 'object' && val !== null && val.$contains) {
        if (!Array.isArray(row[key]) || !row[key].includes(val.$contains)) return false;
      } else if (row[key] !== val) return false;
    }
    return true;
  }
  \<close>
  One round of the loop yields \<open>Inr True\<close> when the loop goes on, \<open>Inr False\<close> when the
  function returns \<open>false\<close>, and \<open>Inl\<close> what it throws. The basic engine has the same text
  without the test \<open>val !== null\<close>, so that \<open>val.$contains\<close> throws on \<open>null\<close>.
\<close>

definition matchKey_ex :: "json \<Rightarrow> string \<Rightarrow> json \<Rightarrow> error + bool" where
  "matchKey_ex row key val =
     (if typeof_object val \<and> val \<noteq> JNull \<and> truthy (member val ''$contains'') then
        (case get row key of
           Inl e \<Rightarrow> Inl e
         | Inr (JArr xs) \<Rightarrow> Inr (arr_includes xs (member val ''$contains''))
         | Inr other \<Rightarrow> Inr False)
      else
        (case get row key of
           Inl e \<Rightarrow> Inl e
         | Inr rv \<Rightarrow> Inr (strict_eq rv val)))"

fun matchLoop_ex :: "json \<Rightarrow> (string \<times> json) list \<Rightarrow> error + bool" where
  "matchLoop_ex row [] = Inr True"
| "matchLoop_ex row ((key, val) # rest) =
     (case matchKey_ex row key val of
        Inl e \<Rightarrow> Inl e
      | Inr False \<Rightarrow> Inr False
      | Inr True \<Rightarrow> matchLoop_ex row rest)"

definition matchFilter_ex :: "json \<Rightarrow> json \<Rightarrow> error + bool" where
  "matchFilter_ex row flt =
     (if \<not> truthy flt then Inr True else matchLoop_ex row (entries flt))"

definition matchKey_src :: "json \<Rightarrow> string \<Rightarrow> json \<Rightarrow> error + bool" where
  "matchKey_src row key val =
     (if val = JNull then Inl TypeError
      else if typeof_object val \<and> truthy (member val ''$contains'') then
        (case get row key of
           Inl e \<Rightarrow> Inl e
         | Inr (JArr xs) \<Rightarrow> Inr (arr_includes xs (member val ''$contains''))
         | Inr other \<Rightarrow> Inr False)
      else
        (case get row key of
           Inl e \<Rightarrow> Inl e
         | Inr rv \<Rightarrow> Inr (strict_eq rv val)))"

fun matchLoop_src :: "json \<Rightarrow> (string \<times> json) list \<Rightarrow> error + bool" where
  "matchLoop_src row [] = Inr True"
| "matchLoop_src row ((key, val) # rest) =
     (case matchKey_src row key val of
        Inl e \<Rightarrow> Inl e
      | Inr False \<Rightarrow> Inr False
      | Inr True \<Rightarrow> matchLoop_src row rest)"

definition matchFilter_src :: "json \<Rightarrow> json \<Rightarrow> error + bool" where
  "matchFilter_src row flt =
     (if \<not> truthy flt then Inr True else matchLoop_src row (entries flt))"

subsection \<open>The filter matcher of the advanced engine\<close>

text \<open>
  \<open>matchFilter\<close> of the advanced engine reads \<open>$and\<close>, \<open>$or\<close> and \<open>$not\<close> first, in this
  order, and returns from the first that is there; otherwise it runs over the keys of
  the filter, skipping those that start with \<open>$\<close>. A value that is an object (not an
  array) is a set of operators, each of which must hold. Whatever is thrown inside is
  caught and thrown again as a \<open>TextDBXError\<close> with the code \<open>FILTER_ERROR\<close>.
  \<open>applyOperator_adv\<close> is one round of the loop over the operators: \<open>Inr True\<close> is
  \<open>break\<close>, \<open>Inr False\<close> is \<open>return false\<close>.
\<close>

definition applyOperator_adv :: "json \<Rightarrow> string \<Rightarrow> json \<Rightarrow> error + bool" where
  "applyOperator_adv rowValue op opValue =
     (if opValue = JUndefined \<or> opValue = JNull then Inl (TextDBXError ''VALIDATION_ERROR'')
      else if op = ''$gt'' then
        (case (rowValue, opValue) of (JNum a, JNum b) \<Rightarrow> Inr (\<not> a \<le> b) | other \<Rightarrow> Inr False)
      else if op = ''$lt'' then
        (case (rowValue, opValue) of (JNum a, JNum b) \<Rightarrow> Inr (\<not> a \<ge> b) | other \<Rightarrow> Inr False)
      else if op = ''$gte'' then
        (case (rowValue, opValue) of (JNum a, JNum b) \<Rightarrow> Inr (\<not> a < b) | other \<Rightarrow> Inr False)
      else if op = ''$lte'' then
        (case (rowValue, opValue) of (JNum a, JNum b) \<Rightarrow> Inr (\<not> a > b) | other \<Rightarrow> Inr False)
      else if op = ''$contains'' then
        (case rowValue of
           JArr xs \<Rightarrow>
             Inr (list_all (\<lambda>item. is_string item \<or> is_number item) xs \<and> arr_includes xs opValue)
         | JStr s \<Rightarrow> (case opValue of JStr p \<Rightarrow> Inr (str_includes s p) | other \<Rightarrow> Inr False)
         | other \<Rightarrow> Inr False)
      else if op = ''$in'' then
        (case opValue of JArr xs \<Rightarrow> Inr (arr_includes xs rowValue) | other \<Rightarrow> Inr False)
      else if op = ''$exists'' then
        (case opValue of JBool b \<Rightarrow> Inr ((rowValue \<noteq> JUndefined) = b) | other \<Rightarrow> Inr False)
      else Inl (TextDBXError ''VALIDATION_ERROR''))"

fun operatorsLoop_adv :: "json \<Rightarrow> (string \<times> json) list \<Rightarrow> error + bool" where
  "operatorsLoop_adv rowValue [] = Inr True"
| "operatorsLoop_adv rowValue ((op, opValue) # rest) =
     (case applyOperator_adv rowValue op opValue of
        Inl e \<Rightarrow> Inl e
      | Inr False \<Rightarrow> Inr False
      | Inr True \<Rightarrow> operatorsLoop_adv rowValue rest)"

definition matchKey_adv :: "json \<Rightarrow> string \<Rightarrow> json \<Rightarrow> error + bool" where
  "matchKey_adv row key filterValue =
     (if startsWith key ''$'' then Inr True
      else case get row key of
        Inl e \<Rightarrow> Inl e
      | Inr rowValue \<Rightarrow>
          (case filterValue of
             JObj operators \<Rightarrow> operatorsLoop_adv rowValue operators
           | other \<Rightarrow> Inr (strict_eq rowValue filterValue)))"

fun matchLoop_adv :: "json \<Rightarrow> (string \<times> json) list \<Rightarrow> error + bool" where
  "matchLoop_adv row [] = Inr True"
| "matchLoop_adv row ((key, filterValue) # rest) =
     (case matchKey_adv row key filterValue of
        Inl e \<Rightarrow> Inl e
      | Inr False \<Rightarrow> Inr False
      | Inr True \<Rightarrow> matchLoop_adv row rest)"

definition catch_filter :: "error + bool \<Rightarrow> error + bool" where
  "catch_filter r = (case r of Inl e \<Rightarrow> Inl (TextDBXError ''FILTER_ERROR'') | Inr b \<Rightarrow> Inr b)"

function matchFilter_adv :: "json \<Rightarrow> json \<Rightarrow> error + bool"
  and every_adv :: "json \<Rightarrow> json list \<Rightarrow> error + bool"
  and some_adv :: "json \<Rightarrow> json list \<Rightarrow> error + bool"
where
  "matchFilter_adv row flt =
     (if \<not> truthy flt then Inr True
      else catch_filter
        (if truthy (member flt ''$and'') then
           (case member flt ''$and'' of JArr fs \<Rightarrow> every_adv row fs | other \<Rightarrow> Inl TypeError)
         else if truthy (member flt ''$or'') then
           (case member flt ''$or'' of JArr fs \<Rightarrow> some_adv row fs | other \<Rightarrow> Inl TypeError)
         else if truthy (member flt ''$not'') then
           (case matchFilter_adv row (member flt ''$not'') of Inl e \<Rightarrow> Inl e | Inr b \<Rightarrow> Inr (\<not> b))
         else matchLoop_adv row (entries flt)))"
| "every_adv row [] = Inr True"
| "every_adv row (f # fs) =
     (case matchFilter_adv row f of
        Inl e \<Rightarrow> Inl e
      | Inr False \<Rightarrow> Inr False
      | Inr True \<Rightarrow> every_adv row fs)"
| "some_adv row [] = Inr False"
| "some_adv row (f # fs) =
     (case matchFilter_adv row f of
        Inl e \<Rightarrow> Inl e
      | Inr True \<Rightarrow> Inr True
      | Inr False \<Rightarrow> some_adv row fs)"
  by pat_completeness auto
termination
proof -
  have size_map_of: "map_of kvs k = Some v \<Longrightarrow> size v < size (JObj kvs)"
    for kvs :: "(string \<times> json) list" and k v
    by (induction kvs) (auto split: if_splits)
  have member_size: "size (member flt k) < size flt"
    if "truthy (member flt k)" "array_index k = None" "k \<noteq> ''length''" for flt k
    using that by (cases flt) (auto simp: member_def dest: size_map_of split: option.splits)
  have ai: "array_index ''$and'' = None" "array_index ''$or'' = None" "array_index ''$not'' = None"
    by (simp_all add: array_index_def is_digit_def)
  show ?thesis
  proof (relation "measure (\<lambda>x. case x of Inl (row, flt) \<Rightarrow> 2 * size flt
                                  | Inr (Inl (row, fs)) \<Rightarrow> 2 * size_list size fs + 1
                                  | Inr (Inr (row, fs)) \<Rightarrow> 2 * size_list size fs + 1)", goal_cases)
    case 1 show ?case by simp
  next
    case (2 row flt fs)
    then show ?case using member_size[of flt "''$and''"] by (simp add: ai)
  next
    case (3 row flt fs)
    then show ?case using member_size[of flt "''$or''"] by (simp add: ai)
  next
    case (4 row flt)
    then show ?case using member_size[of flt "''$not''"] by (simp add: ai)
  qed simp_all
qed

declare matchFilter_adv.simps [simp del]

subsection \<open>Projection\<close>

text \<open>
  The basic and the examples engine have the same text:
  \<^verbatim>\<open>
  private projectFields(row: any, fields?: string[]): any {
    if (!fields) return row;
    const projected: any = {};
    for (const f of fields) projected[f] = row[f];
    return projected;
  }
  \<close>
  An absent field list is \<open>None\<close>; the empty list is truthy.
\<close>

fun projectLoop_ex :: "json \<Rightarrow> string list \<Rightarrow> (string \<times> json) list \<Rightarrow> error + (string \<times> json) list" where
  "projectLoop_ex row [] projected = Inr projected"
| "projectLoop_ex row (f # fs) projected =
     (case get row f of
        Inl e \<Rightarrow> Inl e
      | Inr v \<Rightarrow> projectLoop_ex row fs (obj_set projected f v))"

definition projectFields_ex :: "json \<Rightarrow> string list option \<Rightarrow> error + json" where
  "projectFields_ex row fields =
     (case fields of
        None \<Rightarrow> Inr row
      | Some fs \<Rightarrow>
          (case projectLoop_ex row fs [] of Inl e \<Rightarrow> Inl e | Inr projected \<Rightarrow> Inr (JObj projected)))"

definition projectFields_src :: "json \<Rightarrow> string list option \<Rightarrow> error + json" where
  "projectFields_src row fields =
     (case fields of
        None \<Rightarrow> Inr row
      | Some fs \<Rightarrow>
          (case projectLoop_ex row fs [] of Inl e \<Rightarrow> Inl e | Inr projected \<Rightarrow> Inr (JObj projected)))"





subsection \<open>The platform\<close>

text \<open>
  What the engines call and the repository does not define: the JSON codec, the hash, the
  key derivation, the cipher and the random generator of the runtime. They are parameters
  of the model. \<open>JSON_stringify\<close> is \<open>JSON.stringify(v, null, 2)\<close>; \<open>JSON_parse\<close> yields
  \<open>None\<close> where \<open>JSON.parse\<close> throws; \<open>cipher key iv text\<close> is
  \<open>createCipheriv('aes-256-cbc', key, iv)\<close> followed by \<open>update\<close> and \<open>final\<close>, and
  \<open>decipher\<close> its inverse, \<open>None\<close> where one of the three throws; \<open>random_source\<close> lists
  the bytes \<open>crypto.randomBytes\<close> hands out, in order. Strings and buffers are both
  lists of bytes: a text is taken as its UTF-8 encoding.
\<close>

record platform =
  JSON_stringify :: "json \<Rightarrow> string"
  JSON_parse :: "string \<Rightarrow> json option"
  sha256 :: "string \<Rightarrow> string"
  pbkdf2Sync :: "string \<Rightarrow> string \<Rightarrow> nat \<Rightarrow> nat \<Rightarrow> string \<Rightarrow> string"
  cipher :: "string \<Rightarrow> string \<Rightarrow> string \<Rightarrow> string option"
  decipher :: "string \<Rightarrow> string \<Rightarrow> string \<Rightarrow> string option"
  random_source :: "nat \<Rightarrow> char"

text \<open>
  The world outside the engine: the files with their contents and modification times, the
  clock (\<open>Date.now()\<close>), and the number of random bytes drawn so far. \<open>observed\<close> lists
  every content of the file system another reader could have seen, oldest first.
  Time does not pass during an operation.
\<close>

record world =
  files :: "string \<rightharpoonup> string"
  mtimes :: "string \<Rightarrow> nat"
  clock :: nat
  drawn :: nat
  observed :: "(string \<rightharpoonup> string) list"

definition randomBytes :: "platform \<Rightarrow> nat \<Rightarrow> world \<Rightarrow> string \<times> world" where
  "randomBytes P n w = (map (random_source P) [drawn w ..< drawn w + n], w\<lparr>drawn := drawn w + n\<rparr>)"

text \<open>
  \<open>fs.writeFileSync\<close> and \<open>fs.promises.writeFile\<close> truncate the file and then write the
  bytes: until the last byte is written a reader sees a prefix. \<open>fs.copyFileSync\<close> writes
  its destination in the same way. \<open>fs.promises.rename\<close> replaces the destination in one
  step.
\<close>

definition writeFile :: "string \<Rightarrow> string \<Rightarrow> world \<Rightarrow> world" where
  "writeFile p s w =
     w\<lparr>files := (files w)(p \<mapsto> s),
       mtimes := (mtimes w)(p := clock w),
       observed := observed w @ map (\<lambda>n. (files w)(p \<mapsto> take n s)) [0..<Suc (length s)]\<rparr>"

definition copyFile :: "string \<Rightarrow> string \<Rightarrow> world \<Rightarrow> world" where
  "copyFile src dst w = (case files w src of None \<Rightarrow> w | Some s \<Rightarrow> writeFile dst s w)"

definition rename :: "string \<Rightarrow> string \<Rightarrow> world \<Rightarrow> world" where
  "rename src dst w =
     w\<lparr>files := (files w)(dst := files w src, src := None),
       mtimes := (mtimes w)(dst := mtimes w src),
       observed := observed w @ [(files w)(dst := files w src, src := None)]\<rparr>"

definition existsSync :: "string \<Rightarrow> world \<Rightarrow> bool" where
  "existsSync p w = (files w p \<noteq> None)"

subsection \<open>Strings and buffers\<close>

text \<open>\<open>s.trim()\<close>, for the white space of ASCII.\<close>

definition is_space :: "char \<Rightarrow> bool" where
  "is_space c = (c \<in> set [CHR 0x09, CHR 0x0A, CHR 0x0B, CHR 0x0C, CHR 0x0D, CHR 0x20])"

definition trim :: "string \<Rightarrow> string" where
  "trim s = rev (dropWhile is_space (rev (dropWhile is_space s)))"

text \<open>\<open>s.split(d)\<close> for a separator of one character.\<close>

fun split_on :: "char \<Rightarrow> string \<Rightarrow> string list" where
  "split_on d [] = [[]]"
| "split_on d (c # cs) =
     (if c = d then [] # split_on d cs
      else case split_on d cs of x # xs \<Rightarrow> (c # x) # xs | [] \<Rightarrow> [[c]])"

text \<open>
  \<open>buf.toString('hex')\<close> and \<open>Buffer.from(s, 'hex')\<close>. Decoding never throws: it stops at
  the first pair that is not two hexadecimal digits, and drops a last single character.
\<close>

definition hex_digit :: "nat \<Rightarrow> char" where
  "hex_digit n = digit_char n"

fun hex_encode :: "string \<Rightarrow> string" where
  "hex_encode [] = []"
| "hex_encode (b # bs) =
     hex_digit ((of_char b :: nat) div 16) # hex_digit ((of_char b :: nat) mod 16) # hex_encode bs"

definition hex_val :: "char \<Rightarrow> nat option" where
  "hex_val c =
     (let n = (of_char c :: nat) in
      if 48 \<le> n \<and> n \<le> 57 then Some (n - 48)
      else if 97 \<le> n \<and> n \<le> 102 then Some (n - 87)
      else if 65 \<le> n \<and> n \<le> 70 then Some (n - 55)
      else None)"

fun hex_decode :: "string \<Rightarrow> string" where
  "hex_decode (a # b # rest) =
     (case hex_val a of
        None \<Rightarrow> []
      | Some x \<Rightarrow> (case hex_val b of None \<Rightarrow> [] | Some y \<Rightarrow> char_of (16 * x + y) # hex_decode rest))"
| "hex_decode s = []"

text \<open>\<open>path.join(dir, name)\<close>, for a directory and a file name with no separator in it.\<close>

definition path_join :: "string \<Rightarrow> string \<Rightarrow> string" where
  "path_join dir name = dir @ ''/'' @ name"

subsection \<open>The engine object\<close>

text \<open>
  \<open>ConnectConfig\<close>, and the fields of a \<open>TextDBX\<close> object of the basic and the examples
  engine that its operations read: the configuration and the table of the \<open>.auth\<close> file.
\<close>

record connectConfig =
  database :: string
  encryptionKey :: string
  mode :: string
  role :: string

record textDBX =
  config :: connectConfig
  auth :: "string \<rightharpoonup> string list"

definition collectionPath :: "connectConfig \<Rightarrow> string \<Rightarrow> string" where
  "collectionPath cfg collection = path_join (database cfg) (collection @ ''.tdbx'')"

subsection \<open>Storage of the examples engine\<close>

text \<open>
  \<^verbatim>\<open>
  private encrypt(data: string): string {
    try {
      const key = crypto.createHash('sha256').update(this.config.encryptionKey).digest();
      const iv = crypto.randomBytes(16);
      const cipher = crypto.createCipheriv('aes-256-cbc', key, iv);
      const encrypted = Buffer.concat([cipher.update(data, 'utf8'), cipher.final()]);
      return iv.toString('hex') + ':' + encrypted.toString('hex');
    } catch (error) {
      throw new Error(`Encryption failed: ...`);
    }
  }
  \<close>
\<close>

definition encrypt_ex :: "platform \<Rightarrow> connectConfig \<Rightarrow> string \<Rightarrow> world \<Rightarrow> (error + string) \<times> world" where
  "encrypt_ex P cfg data w =
     (let key = sha256 P (encryptionKey cfg);
          (iv, w') = randomBytes P 16 w
      in case cipher P key iv data of
           None \<Rightarrow> (Inl (Error ''Encryption failed''), w')
         | Some encrypted \<Rightarrow> (Inr (hex_encode iv @ '':'' @ hex_encode encrypted), w'))"

text \<open>
  \<^verbatim>\<open>
  private decrypt(data: string): string {
    try {
      if (!data || !data.includes(':')) {
        throw new Error('Invalid encrypted data format');
      }
      const key = crypto.createHash('sha256').update(this.config.encryptionKey).digest();
      const [ivHex, encHex] = data.split(':');
      if (!ivHex || !encHex) {
        throw new Error('Invalid encrypted data format');
      }
      const iv = Buffer.from(ivHex, 'hex');
      const encrypted = Buffer.from(encHex, 'hex');
      const decipher = crypto.createDecipheriv('aes-256-cbc', key, iv);
      const decrypted = Buffer.concat([decipher.update(encrypted), decipher.final()]);
      return decrypted.toString('utf8');
    } catch (error) {
      throw new Error(`Decryption failed: ...`);
    }
  }
  \<close>
  Whatever is thrown inside leaves as the one error \<open>Decryption failed\<close>.
\<close>

definition decrypt_ex :: "platform \<Rightarrow> connectConfig \<Rightarrow> string \<Rightarrow> error + string" where
  "decrypt_ex P cfg data =
     (if data = [] \<or> CHR '':'' \<notin> set data then Inl (Error ''Decryption failed'')
      else
        let key = sha256 P (encryptionKey cfg) in
        case split_on CHR '':'' data of
          ivHex # encHex # others \<Rightarrow>
            if ivHex = [] \<or> encHex = [] then Inl (Error ''Decryption failed'')
            else (case decipher P key (hex_decode ivHex) (hex_decode encHex) of
                    None \<Rightarrow> Inl (Error ''Decryption failed'')
                  | Some decrypted \<Rightarrow> Inr decrypted)
        | fewer \<Rightarrow> Inl (Error ''Decryption failed''))"

text \<open>
  \<^verbatim>\<open>
  private saveFile(collection: string, data: any[]): void {
    try {
      if (!Array.isArray(data)) { throw new Error('Data must be an array'); }
      const json = JSON.stringify(data, null, 2);
      const raw = this.config.mode === 'encrypted' ? this.encrypt(json) : json;
      const filePath = path.join(this.config.database, `${collection}.tdbx`);
      // Create backup of existing file
      if (fs.existsSync(filePath)) {
        const backupPath = `${filePath}.backup`;
        fs.copyFileSync(filePath, backupPath);
      }
      fs.writeFileSync(filePath, raw);
      // Verify the write was successful
      if (!fs.existsSync(filePath)) { throw new Error('Failed to write file'); }
    } catch (error) {
      throw new Error(`Failed to save ${collection}: ...`);
    }
  }
  \<close>
  The data are a list here, so the first test never fails; the file system calls are
  taken to succeed, so the last test never fails either.
\<close>

definition encode_ex :: "platform \<Rightarrow> connectConfig \<Rightarrow> string \<Rightarrow> world \<Rightarrow> (error + string) \<times> world" where
  "encode_ex P cfg json w =
     (if mode cfg = ''encrypted'' then encrypt_ex P cfg json w else (Inr json, w))"

definition saveFile_ex :: "platform \<Rightarrow> connectConfig \<Rightarrow> string \<Rightarrow> json list \<Rightarrow> world \<Rightarrow> (error + unit) \<times> world" where
  "saveFile_ex P cfg collection data w =
     (let json = JSON_stringify P (JArr data) in
      case encode_ex P cfg json w of
        (Inl e, w1) \<Rightarrow> (Inl (Error ''Failed to save''), w1)
      | (Inr raw, w1) \<Rightarrow>
          let filePath = collectionPath cfg collection;
              w2 = (if existsSync filePath w1 then copyFile filePath (filePath @ ''.backup'') w1 else w1)
          in (Inr (), writeFile filePath raw w2))"

text \<open>
  \<open>loadFile\<close> of the examples engine never throws: its outer \<open>catch\<close> turns whatever was
  thrown inside, the error \<open>Cannot decrypt\<close> included, into the result \<open>[]\<close>.
  \<^verbatim>\<open>
  private loadFile(collection: string): any[] {
    const filePath = path.join(this.config.database, `${collection}.tdbx`);
    if (!fs.existsSync(filePath)) { return []; }
    try {
      const raw = fs.readFileSync(filePath, 'utf8');
      if (!raw.trim()) {
        this.saveFile(collection, []); // Fix the empty file
        return [];
      }
      let json: string;
      if (this.config.mode === 'encrypted') {
        try { json = this.decrypt(raw); }
        catch (decryptError) {
          throw new Error(`Cannot decrypt ${collection}.tdbx. Check your encryption key and mode.`);
        }
      } else { json = raw; }
      try {
        const parsed = JSON.parse(json);
        if (!Array.isArray(parsed)) { return [parsed]; }
        return parsed;
      } catch (parseError) {
        const backupPath = `${filePath}.backup.${Date.now()}`;
        fs.copyFileSync(filePath, backupPath);
        this.saveFile(collection, []);
        return [];
      }
    } catch (error) {
      return [];
    }
  }
  \<close>
\<close>

definition decode_ex :: "platform \<Rightarrow> connectConfig \<Rightarrow> string \<Rightarrow> error + string" where
  "decode_ex P cfg raw =
     (if mode cfg = ''encrypted'' then
        (case decrypt_ex P cfg raw of Inl e \<Rightarrow> Inl (Error ''Cannot decrypt'') | Inr json \<Rightarrow> Inr json)
      else Inr raw)"

definition loadFile_ex :: "platform \<Rightarrow> connectConfig \<Rightarrow> string \<Rightarrow> world \<Rightarrow> json list \<times> world" where
  "loadFile_ex P cfg collection w =
     (let filePath = collectionPath cfg collection in
      case files w filePath of
        None \<Rightarrow> ([], w)
      | Some raw \<Rightarrow>
          if trim raw = [] then ([], snd (saveFile_ex P cfg collection [] w))
          else case decode_ex P cfg raw of
            Inl e \<Rightarrow> ([], w)
          | Inr json \<Rightarrow>
              (case JSON_parse P json of
                 Some (JArr rows) \<Rightarrow> (rows, w)
               | Some parsed \<Rightarrow> ([parsed], w)
               | None \<Rightarrow>
                   let backupPath = filePath @ ''.backup.'' @ dec (clock w);
                       w1 = copyFile filePath backupPath w
                   in ([], snd (saveFile_ex P cfg collection [] w1))))"


subsection \<open>Operations of the examples engine\<close>

text \<open>
  \<^verbatim>\<open>
  private checkPermission(action: string): void {
    const role = this.config.role;
    if (!this.auth[role]) { throw new Error(`Role '${role}' not found ...`); }
    if (!this.auth[role].includes(action)) { throw new Error(`Permission denied: ...`); }
  }
  private validateCollectionName(collection: string): void {
    if (!collection || typeof collection !== 'string') { throw new Error(...); }
    if (!/^[a-zA-Z0-9_-]+$/.test(collection)) { throw new Error(...); }
    if (collection.startsWith('.')) { throw new Error(...); }
  }
  \<close>
\<close>

definition checkPermission_ex :: "textDBX \<Rightarrow> string \<Rightarrow> error + unit" where
  "checkPermission_ex db action =
     (case auth db (role (config db)) of
        None \<Rightarrow> Inl (Error ''Role not found'')
      | Some actions \<Rightarrow>
          if action \<in> set actions then Inr () else Inl (Error ''Permission denied''))"

definition name_char :: "char \<Rightarrow> bool" where
  "name_char c =
     (let n = (of_char c :: nat) in
      (97 \<le> n \<and> n \<le> 122) \<or> (65 \<le> n \<and> n \<le> 90) \<or> (48 \<le> n \<and> n \<le> 57)
        \<or> c = CHR ''_'' \<or> c = CHR ''-'')"

definition validateCollectionName_ex :: "string \<Rightarrow> error + unit" where
  "validateCollectionName_ex collection =
     (if collection = [] then Inl (Error ''Collection name must be a non-empty string'')
      else if \<not> list_all name_char collection then Inl (Error ''Collection name can only contain'')
      else if startsWith collection ''.'' then Inl (Error ''Collection name cannot start with a dot'')
      else Inr ())"

text \<open>
  \<open>rows.filter(keep)\<close> and \<open>rows.map(f)\<close> where the callback can throw: the first throw
  ends the call.
\<close>

fun filter_rows :: "(json \<Rightarrow> error + bool) \<Rightarrow> json list \<Rightarrow> error + json list" where
  "filter_rows keep [] = Inr []"
| "filter_rows keep (row # rows) =
     (case keep row of
        Inl e \<Rightarrow> Inl e
      | Inr b \<Rightarrow>
          (case filter_rows keep rows of
             Inl e \<Rightarrow> Inl e
           | Inr kept \<Rightarrow> Inr (if b then row # kept else kept)))"

fun map_rows :: "(json \<Rightarrow> error + json) \<Rightarrow> json list \<Rightarrow> error + json list" where
  "map_rows f [] = Inr []"
| "map_rows f (row # rows) =
     (case f row of
        Inl e \<Rightarrow> Inl e
      | Inr v \<Rightarrow> (case map_rows f rows of Inl e \<Rightarrow> Inl e | Inr vs \<Rightarrow> Inr (v # vs)))"

definition negate :: "error + bool \<Rightarrow> error + bool" where
  "negate r = (case r of Inl e \<Rightarrow> Inl e | Inr b \<Rightarrow> Inr (\<not> b))"

text \<open>
  \<open>Query\<close>: an absent filter is \<open>undefined\<close>, an absent field list is \<open>None\<close>.
  \<^verbatim>\<open>
  public queryObject(query: Query): any[] {
    this.checkPermission('query');
    this.validateCollectionName(query.collection);
    const data = this.loadFile(query.collection);
    return data.filter(row => this.matchFilter(row, query.filter))
               .map(row => this.projectFields(row, query.fields));
  }
  \<close>
\<close>

record query =
  collection_of :: string
  filter_of :: json
  fields_of :: "string list option"

definition queryObject_ex :: "platform \<Rightarrow> textDBX \<Rightarrow> query \<Rightarrow> world \<Rightarrow> (error + json list) \<times> world" where
  "queryObject_ex P db q w =
     (case checkPermission_ex db ''query'' of
        Inl e \<Rightarrow> (Inl e, w)
      | Inr u \<Rightarrow>
          (case validateCollectionName_ex (collection_of q) of
             Inl e \<Rightarrow> (Inl e, w)
           | Inr u \<Rightarrow>
               let (data, w1) = loadFile_ex P (config db) (collection_of q) w in
               (case filter_rows (\<lambda>row. matchFilter_ex row (filter_of q)) data of
                  Inl e \<Rightarrow> (Inl e, w1)
                | Inr matching \<Rightarrow> (map_rows (\<lambda>row. projectFields_ex row (fields_of q)) matching, w1))))"

text \<open>
  \<^verbatim>\<open>
  public insert(collection: string, record: any): void {
    this.checkPermission('insert');
    this.validateCollectionName(collection);
    if (!record || typeof record !== 'object') { throw new Error('Record must be a non-null object'); }
    const data = this.loadFile(collection);
    data.push(record);
    this.saveFile(collection, data);
  }
  \<close>
\<close>

definition insert_ex :: "platform \<Rightarrow> textDBX \<Rightarrow> string \<Rightarrow> json \<Rightarrow> world \<Rightarrow> (error + unit) \<times> world" where
  "insert_ex P db collection record w =
     (case checkPermission_ex db ''insert'' of
        Inl e \<Rightarrow> (Inl e, w)
      | Inr u \<Rightarrow>
          (case validateCollectionName_ex collection of
             Inl e \<Rightarrow> (Inl e, w)
           | Inr u \<Rightarrow>
               if \<not> truthy record \<or> \<not> typeof_object record
               then (Inl (Error ''Record must be a non-null object''), w)
               else
                 let (data, w1) = loadFile_ex P (config db) collection w in
                 saveFile_ex P (config db) collection (data @ [record]) w1))"

text \<open>
  \<open>Object.assign(row, changes)\<close> sets every own property of \<open>changes\<close> on \<open>row\<close>, and throws
  on \<open>null\<close> and \<open>undefined\<close>. A row that is a number, a string or a boolean stays as it
  is; so does, in this model, a row that is an array.
\<close>

definition object_assign :: "json \<Rightarrow> json \<Rightarrow> error + json" where
  "object_assign row changes =
     (case row of
        JUndefined \<Rightarrow> Inl TypeError
      | JNull \<Rightarrow> Inl TypeError
      | JObj kvs \<Rightarrow> Inr (JObj (foldl (\<lambda>acc (k, v). obj_set acc k v) kvs (entries changes)))
      | other \<Rightarrow> Inr row)"

text \<open>
  \<^verbatim>\<open>
  public update(collection: string, filter: any, changes: any): number {
    this.checkPermission('update');
    this.validateCollectionName(collection);
    if (!changes || typeof changes !== 'object') { throw new Error('Changes must be a non-null object'); }
    const data = this.loadFile(collection);
    let updateCount = 0;
    for (const row of data) {
      if (this.matchFilter(row, filter)) {
        Object.assign(row, changes);
        updateCount++;
      }
    }
    this.saveFile(collection, data);
    return updateCount;
  }
  \<close>
  The loop yields the rows as they are after it and the count.
\<close>

fun updateLoop_ex :: "json \<Rightarrow> json \<Rightarrow> json list \<Rightarrow> error + (json list \<times> nat)" where
  "updateLoop_ex flt changes [] = Inr ([], 0)"
| "updateLoop_ex flt changes (row # rows) =
     (case matchFilter_ex row flt of
        Inl e \<Rightarrow> Inl e
      | Inr False \<Rightarrow>
          (case updateLoop_ex flt changes rows of
             Inl e \<Rightarrow> Inl e
           | Inr (rows', n) \<Rightarrow> Inr (row # rows', n))
      | Inr True \<Rightarrow>
          (case object_assign row changes of
             Inl e \<Rightarrow> Inl e
           | Inr row' \<Rightarrow>
               (case updateLoop_ex flt changes rows of
                  Inl e \<Rightarrow> Inl e
                | Inr (rows', n) \<Rightarrow> Inr (row' # rows', Suc n))))"

definition update_ex :: "platform \<Rightarrow> textDBX \<Rightarrow> string \<Rightarrow> json \<Rightarrow> json \<Rightarrow> world \<Rightarrow> (error + nat) \<times> world" where
  "update_ex P db collection flt changes w =
     (case checkPermission_ex db ''update'' of
        Inl e \<Rightarrow> (Inl e, w)
      | Inr u \<Rightarrow>
          (case validateCollectionName_ex collection of
             Inl e \<Rightarrow> (Inl e, w)
           | Inr u \<Rightarrow>
               if \<not> truthy changes \<or> \<not> typeof_object changes
               then (Inl (Error ''Changes must be a non-null object''), w)
               else
                 let (data, w1) = loadFile_ex P (config db) collection w in
                 (case updateLoop_ex flt changes data of
                    Inl e \<Rightarrow> (Inl e, w1)
                  | Inr (data', updateCount) \<Rightarrow>
                      (case saveFile_ex P (config db) collection data' w1 of
                         (Inl e, w2) \<Rightarrow> (Inl e, w2)
                       | (Inr u, w2) \<Rightarrow> (Inr updateCount, w2)))))"

text \<open>
  \<^verbatim>\<open>
  public delete(collection: string, filter: any): number {
    this.checkPermission('delete');
    this.validateCollectionName(collection);
    const data = this.loadFile(collection);
    const originalLength = data.length;
    const filtered = data.filter(row => !this.matchFilter(row, filter));
    const deletedCount = originalLength - filtered.length;
    this.saveFile(collection, filtered);
    return deletedCount;
  }
  \<close>
\<close>

definition delete_ex :: "platform \<Rightarrow> textDBX \<Rightarrow> string \<Rightarrow> json \<Rightarrow> world \<Rightarrow> (error + nat) \<times> world" where
  "delete_ex P db collection flt w =
     (case checkPermission_ex db ''delete'' of
        Inl e \<Rightarrow> (Inl e, w)
      | Inr u \<Rightarrow>
          (case validateCollectionName_ex collection of
             Inl e \<Rightarrow> (Inl e, w)
           | Inr u \<Rightarrow>
               let (data, w1) = loadFile_ex P (config db) collection w in
               (case filter_rows (\<lambda>row. negate (matchFilter_ex row flt)) data of
                  Inl e \<Rightarrow> (Inl e, w1)
                | Inr filtered \<Rightarrow>
                    (case saveFile_ex P (config db) collection filtered w1 of
                       (Inl e, w2) \<Rightarrow> (Inl e, w2)
                     | (Inr u, w2) \<Rightarrow> (Inr (length data - length filtered), w2)))))"

subsection \<open>Storage and operations of the basic engine\<close>

text \<open>
  The basic engine catches nothing: what the runtime throws leaves the function.
  \<^verbatim>\<open>
  private encrypt(data: string): string {
    const key = crypto.createHash('sha256').update(this.config.encryptionKey).digest();
    const iv = crypto.randomBytes(16);
    const cipher = crypto.createCipheriv('aes-256-cbc', key, iv);
    const encrypted = Buffer.concat([cipher.update(data, 'utf8'), cipher.final()]);
    return iv.toString('hex') + ':' + encrypted.toString('hex');
  }
  private decrypt(data: string): string {
    const key = crypto.createHash('sha256').update(this.config.encryptionKey).digest();
    const [ivHex, encHex] = data.split(':');
    const iv = Buffer.from(ivHex, 'hex');
    const encrypted = Buffer.from(encHex, 'hex');
    const decipher = crypto.createDecipheriv('aes-256-cbc', key, iv);
    const decrypted = Buffer.concat([decipher.update(encrypted), decipher.final()]);
    return decrypted.toString('utf8');
  }
  private loadFile(collection: string): any[] {
    const filePath = path.join(this.config.database, `${collection}.tdbx`);
    if (!fs.existsSync(filePath)) return [];
    const raw = fs.readFileSync(filePath, 'utf8');
    const json = this.config.mode === 'encrypted' ? this.decrypt(raw) : raw;
    return JSON.parse(json);
  }
  private saveFile(collection: string, data: any[]): void {
    const json = JSON.stringify(data, null, 2);
    const raw = this.config.mode === 'encrypted' ? this.encrypt(json) : json;
    fs.writeFileSync(path.join(this.config.database, `${collection}.tdbx`), raw);
  }
  \<close>
  \<open>Buffer.from(undefined, 'hex')\<close> throws a \<open>TypeError\<close>; \<open>loadFile\<close> returns whatever
  \<open>JSON.parse\<close> returns, an array or not.
\<close>

definition encrypt_src :: "platform \<Rightarrow> connectConfig \<Rightarrow> string \<Rightarrow> world \<Rightarrow> (error + string) \<times> world" where
  "encrypt_src P cfg data w =
     (let key = sha256 P (encryptionKey cfg);
          (iv, w') = randomBytes P 16 w
      in case cipher P key iv data of
           None \<Rightarrow> (Inl (Error ''cipher''), w')
         | Some encrypted \<Rightarrow> (Inr (hex_encode iv @ '':'' @ hex_encode encrypted), w'))"

definition decrypt_src :: "platform \<Rightarrow> connectConfig \<Rightarrow> string \<Rightarrow> error + string" where
  "decrypt_src P cfg data =
     (let key = sha256 P (encryptionKey cfg) in
      case split_on CHR '':'' data of
        ivHex # encHex # others \<Rightarrow>
          (case decipher P key (hex_decode ivHex) (hex_decode encHex) of
             None \<Rightarrow> Inl (Error ''decipher'')
           | Some decrypted \<Rightarrow> Inr decrypted)
      | fewer \<Rightarrow> Inl TypeError)"

definition loadFile_src :: "platform \<Rightarrow> connectConfig \<Rightarrow> string \<Rightarrow> world \<Rightarrow> error + json" where
  "loadFile_src P cfg collection w =
     (case files w (collectionPath cfg collection) of
        None \<Rightarrow> Inr (JArr [])
      | Some raw \<Rightarrow>
          (case (if mode cfg = ''encrypted'' then decrypt_src P cfg raw else Inr raw) of
             Inl e \<Rightarrow> Inl e
           | Inr json \<Rightarrow>
               (case JSON_parse P json of
                  None \<Rightarrow> Inl (Error ''SyntaxError'')
                | Some parsed \<Rightarrow> Inr parsed)))"

definition saveFile_src :: "platform \<Rightarrow> connectConfig \<Rightarrow> string \<Rightarrow> json list \<Rightarrow> world \<Rightarrow> (error + unit) \<times> world" where
  "saveFile_src P cfg collection data w =
     (let json = JSON_stringify P (JArr data) in
      case (if mode cfg = ''encrypted'' then encrypt_src P cfg json w else (Inr json, w)) of
        (Inl e, w1) \<Rightarrow> (Inl e, w1)
      | (Inr raw, w1) \<Rightarrow> (Inr (), writeFile (collectionPath cfg collection) raw w1))"

text \<open>
  \<^verbatim>\<open>
  private checkPermission(action: string) {
    const role = this.config.role;
    if (!this.auth[role] || !this.auth[role].includes(action)) {
      throw new Error(`Permission denied for ${action}`);
    }
  }
  public queryObject(query: Query): any[] {
    this.checkPermission('query');
    const data = this.loadFile(query.collection);
    return data.filter(row => this.matchFilter(row, query.filter))
               .map(row => this.projectFields(row, query.fields));
  }
  public delete(collection: string, filter: any): void {
    this.checkPermission('delete');
    const data = this.loadFile(collection);
    const filtered = data.filter(row => !this.matchFilter(row, filter));
    this.saveFile(collection, filtered);
  }
  \<close>
  \<open>data.filter\<close> throws a \<open>TypeError\<close> when the file held something other than an array.
\<close>

definition checkPermission_src :: "textDBX \<Rightarrow> string \<Rightarrow> error + unit" where
  "checkPermission_src db action =
     (case auth db (role (config db)) of
        None \<Rightarrow> Inl (Error ''Permission denied'')
      | Some actions \<Rightarrow>
          if action \<in> set actions then Inr () else Inl (Error ''Permission denied''))"

definition queryObject_src :: "platform \<Rightarrow> textDBX \<Rightarrow> query \<Rightarrow> world \<Rightarrow> error + json list" where
  "queryObject_src P db q w =
     (case checkPermission_src db ''query'' of
        Inl e \<Rightarrow> Inl e
      | Inr u \<Rightarrow>
          (case loadFile_src P (config db) (collection_of q) w of
             Inl e \<Rightarrow> Inl e
           | Inr (JArr data) \<Rightarrow>
               (case filter_rows (\<lambda>row. matchFilter_src row (filter_of q)) data of
                  Inl e \<Rightarrow> Inl e
                | Inr matching \<Rightarrow> map_rows (\<lambda>row. projectFields_src row (fields_of q)) matching)
           | Inr other \<Rightarrow> Inl TypeError))"

definition delete_src :: "platform \<Rightarrow> textDBX \<Rightarrow> string \<Rightarrow> json \<Rightarrow> world \<Rightarrow> (error + unit) \<times> world" where
  "delete_src P db collection flt w =
     (case checkPermission_src db ''delete'' of
        Inl e \<Rightarrow> (Inl e, w)
      | Inr u \<Rightarrow>
          (case loadFile_src P (config db) collection w of
             Inl e \<Rightarrow> (Inl e, w)
           | Inr (JArr data) \<Rightarrow>
               (case filter_rows (\<lambda>row. negate (matchFilter_src row flt)) data of
                  Inl e \<Rightarrow> (Inl e, w)
                | Inr filtered \<Rightarrow> saveFile_src P (config db) collection filtered w)
           | Inr other \<Rightarrow> (Inl TypeError, w)))"


subsection \<open>The advanced engine: envelope\<close>

text \<open>
  The configuration of the advanced engine has three more fields; its operations read
  \<open>maxCacheSize\<close> (\<open>parseInt\<close> of the text, \<open>0\<close> standing for \<open>NaN\<close> as well).
\<close>

record advConfig = connectConfig +
  maxCacheSize :: int

text \<open>
  \<^verbatim>\<open>
  private deriveKey(password: string, salt: Buffer): Buffer {
      return crypto.pbkdf2Sync(password, salt, 100000, 32, 'sha256');
  }
  private encrypt(data: string): string {
      try {
          const salt = crypto.randomBytes(16);
          const key = this.deriveKey(this.config.encryptionKey, salt);
          const iv = crypto.randomBytes(16);
          const cipher = crypto.createCipheriv('aes-256-cbc', key, iv);
          const encrypted = Buffer.concat([cipher.update(data, 'utf8'), cipher.final()]);
          return salt.toString('hex') + ':' + iv.toString('hex') + ':' + encrypted.toString('hex');
      } catch (error) { throw new TextDBXError(`Encryption failed: ...`, 'ENCRYPTION_ERROR'); }
  }
  private decrypt(data: string): string {
      try {
          const [saltHex, ivHex, encHex] = data.split(':');
          if (!saltHex || !ivHex || !encHex) { throw new Error('Invalid encrypted data format'); }
          const salt = Buffer.from(saltHex, 'hex');
          const iv = Buffer.from(ivHex, 'hex');
          const encrypted = Buffer.from(encHex, 'hex');
          const key = this.deriveKey(this.config.encryptionKey, salt);
          const decipher = crypto.createDecipheriv('aes-256-cbc', key, iv);
          const decrypted = Buffer.concat([decipher.update(encrypted), decipher.final()]);
          return decrypted.toString('utf8');
      } catch (error) { throw new TextDBXError(`Decryption failed: ...`, 'DECRYPTION_ERROR'); }
  }
  \<close>
\<close>

definition deriveKey :: "platform \<Rightarrow> string \<Rightarrow> string \<Rightarrow> string" where
  "deriveKey P password salt = pbkdf2Sync P password salt 100000 32 ''sha256''"

definition encrypt_adv :: "platform \<Rightarrow> advConfig \<Rightarrow> string \<Rightarrow> world \<Rightarrow> (error + string) \<times> world" where
  "encrypt_adv P cfg data w =
     (let (salt, w1) = randomBytes P 16 w;
          key = deriveKey P (encryptionKey cfg) salt;
          (iv, w2) = randomBytes P 16 w1
      in case cipher P key iv data of
           None \<Rightarrow> (Inl (TextDBXError ''ENCRYPTION_ERROR''), w2)
         | Some encrypted \<Rightarrow>
             (Inr (hex_encode salt @ '':'' @ hex_encode iv @ '':'' @ hex_encode encrypted), w2))"

definition decrypt_adv :: "platform \<Rightarrow> advConfig \<Rightarrow> string \<Rightarrow> error + string" where
  "decrypt_adv P cfg data =
     (case split_on CHR '':'' data of
        saltHex # ivHex # encHex # others \<Rightarrow>
          if saltHex = [] \<or> ivHex = [] \<or> encHex = [] then Inl (TextDBXError ''DECRYPTION_ERROR'')
          else
            let salt = hex_decode saltHex;
                iv = hex_decode ivHex;
                encrypted = hex_decode encHex;
                key = deriveKey P (encryptionKey cfg) salt
            in (case decipher P key iv encrypted of
                  None \<Rightarrow> Inl (TextDBXError ''DECRYPTION_ERROR'')
                | Some decrypted \<Rightarrow> Inr decrypted)
      | fewer \<Rightarrow> Inl (TextDBXError ''DECRYPTION_ERROR''))"

subsection \<open>The advanced engine: objects, cache and transactions\<close>

text \<open>
  The advanced engine keeps arrays of records in its cache and in the snapshots of its
  transactions, hands the cached array itself to its callers, and changes records in
  place. So arrays and records live in a store here: an array is an address whose cell
  lists the addresses of its rows, a row is an address whose cell holds its value.
  \<open>JSON.parse\<close> and \<open>[...data]\<close> allocate; \<open>push\<close> and \<open>Object.assign\<close> write to a cell.
  One caller runs at a time: the file lock and the connection pool are not modelled.
\<close>

record cacheEntry =
  data_of :: nat
  lastModified :: nat
  accessCount :: nat
  lastAccessed :: nat

record transactionOperation =
  op_type :: string
  op_collection :: string
  op_data :: json
  op_filter :: json
  op_changes :: json

record transaction =
  operations :: "transactionOperation list"
  backups :: "(string \<times> nat) list"
  status :: string

record engine =
  config_adv :: advConfig
  auth_adv :: "string \<rightharpoonup> string list"
  cache :: "(string \<times> cacheEntry) list"
  activeTransactions :: "(string \<times> transaction) list"
  arrays :: "nat \<Rightarrow> nat list"
  objects :: "nat \<Rightarrow> json"
  next_addr :: nat

text \<open>\<open>Map.set\<close> keeps the place of a key that is there and appends a new one; \<open>Map.delete\<close>.\<close>

fun map_set :: "(string \<times> 'v) list \<Rightarrow> string \<Rightarrow> 'v \<Rightarrow> (string \<times> 'v) list" where
  "map_set [] k v = [(k, v)]"
| "map_set ((k', v') # kvs) k v = (if k' = k then (k, v) # kvs else (k', v') # map_set kvs k v)"

definition map_delete :: "(string \<times> 'v) list \<Rightarrow> string \<Rightarrow> (string \<times> 'v) list" where
  "map_delete kvs k = filter (\<lambda>(k', v'). k' \<noteq> k) kvs"

definition new_array :: "nat list \<Rightarrow> engine \<Rightarrow> nat \<times> engine" where
  "new_array rows e =
     (next_addr e, e\<lparr>arrays := (arrays e)(next_addr e := rows), next_addr := Suc (next_addr e)\<rparr>)"

definition new_object :: "json \<Rightarrow> engine \<Rightarrow> nat \<times> engine" where
  "new_object v e =
     (next_addr e, e\<lparr>objects := (objects e)(next_addr e := v), next_addr := Suc (next_addr e)\<rparr>)"

fun new_objects :: "json list \<Rightarrow> engine \<Rightarrow> nat list \<times> engine" where
  "new_objects [] e = ([], e)"
| "new_objects (v # vs) e =
     (let (a, e1) = new_object v e; (as, e2) = new_objects vs e1 in (a # as, e2))"

text \<open>The value of an array: what \<open>JSON.stringify\<close> sees.\<close>

definition array_value :: "engine \<Rightarrow> nat \<Rightarrow> json list" where
  "array_value e a = map (objects e) (arrays e a)"

text \<open>
  \<^verbatim>\<open>
  private validateCollectionName(collection: string): void {
      if (!collection || typeof collection !== 'string') { throw new ValidationError(...); }
      if (!/^[a-zA-Z0-9_-]+$/.test(collection)) { throw new ValidationError(...); }
      if (collection.length > 64) { throw new ValidationError(...); }
      if (collection.startsWith('.')) { throw new ValidationError(...); }
  }
  private getCollectionPath(collection: string): string {
      this.validateCollectionName(collection);
      return path.join(this.config.database, `${collection}.tdbx`);
  }
  \<close>
\<close>

definition validateCollectionName_adv :: "string \<Rightarrow> error + unit" where
  "validateCollectionName_adv collection =
     (if collection = [] then Inl (TextDBXError ''VALIDATION_ERROR'')
      else if \<not> list_all name_char collection then Inl (TextDBXError ''VALIDATION_ERROR'')
      else if length collection > 64 then Inl (TextDBXError ''VALIDATION_ERROR'')
      else if startsWith collection ''.'' then Inl (TextDBXError ''VALIDATION_ERROR'')
      else Inr ())"

definition getCollectionPath :: "advConfig \<Rightarrow> string \<Rightarrow> error + string" where
  "getCollectionPath cfg collection =
     (case validateCollectionName_adv collection of
        Inl e \<Rightarrow> Inl e
      | Inr u \<Rightarrow> Inr (path_join (database cfg) (collection @ ''.tdbx'')))"

text \<open>
  \<^verbatim>\<open>
  private updateCache(collection: string, data: DataRecord[], lastModified: number): void {
      // Implement LRU cache eviction
      if (this.cache.size >= (this.config.maxCacheSize || 100)) {
          const oldestKey = Array.from(this.cache.entries())
              .sort(([,a], [,b]) => a.lastAccessed - b.lastAccessed)[0][0];
          this.cache.delete(oldestKey);
      }
      this.cache.set(collection, {
          data: [...data], // Deep copy to prevent mutations
          lastModified,
          accessCount: 1,
          lastAccessed: Date.now()
      });
  }
  \<close>
  The sort is stable: the entry that goes is the first of those accessed longest ago.
  On an empty cache (a limit below one) \<open>[0][0]\<close> throws a \<open>TypeError\<close>. \<open>[...data]\<close> is a
  new array of the same rows.
\<close>

fun oldest :: "(string \<times> cacheEntry) list \<Rightarrow> (string \<times> cacheEntry) option" where
  "oldest [] = None"
| "oldest (kv # kvs) =
     (case oldest kvs of
        None \<Rightarrow> Some kv
      | Some kv' \<Rightarrow> if lastAccessed (snd kv) \<le> lastAccessed (snd kv') then Some kv else Some kv')"

definition updateCache :: "string \<Rightarrow> nat \<Rightarrow> nat \<Rightarrow> engine \<Rightarrow> world \<Rightarrow> error + engine" where
  "updateCache collection dataAddr modified e w =
     (let limit = (if maxCacheSize (config_adv e) = 0 then 100 else maxCacheSize (config_adv e)) in
      case (if int (length (cache e)) \<ge> limit
            then (case oldest (cache e) of
                    None \<Rightarrow> Inl TypeError
                  | Some (oldestKey, entry) \<Rightarrow> Inr (map_delete (cache e) oldestKey))
            else Inr (cache e)) of
        Inl err \<Rightarrow> Inl err
      | Inr kept \<Rightarrow>
          let (copy, e1) = new_array (arrays e dataAddr) e in
          Inr (e1\<lparr>cache := map_set kept collection
                 \<lparr>data_of = copy, lastModified = modified, accessCount = 1, lastAccessed = clock w\<rparr>\<rparr>))"

text \<open>
  \<^verbatim>\<open>
  private async loadFile(collection: string): Promise<DataRecord[]> {
      const cacheKey = collection;
      const cached = this.cache.get(cacheKey);
      const filePath = this.getCollectionPath(collection);
      try {
          if (!fs.existsSync(filePath)) { return []; }
          const stats = fs.statSync(filePath);
          const lastModified = stats.mtime.getTime();
          // Check cache validity
          if (cached && cached.lastModified >= lastModified) {
              cached.accessCount++;
              cached.lastAccessed = Date.now();
              return cached.data;
          }
          // Load from file
          const raw = await fs.promises.readFile(filePath, 'utf8');
          const json = this.config.mode === 'encrypted' ? this.decrypt(raw) : raw;
          let data: DataRecord[];
          try { data = JSON.parse(json) as DataRecord[]; }
          catch (parseError) { throw new TextDBXError(`Invalid JSON ...`, 'DATA_CORRUPTION_ERROR'); }
          // Validate data structure
          if (!Array.isArray(data)) { throw new TextDBXError(`...`, 'DATA_FORMAT_ERROR'); }
          // Update cache
          this.updateCache(cacheKey, data, lastModified);
          return data;
      } catch (error) {
          if (error instanceof TextDBXError) { throw error; }
          throw new TextDBXError(`Failed to load collection ...`, 'FILE_READ_ERROR');
      }
  }
  \<close>
  The result is the address of the array returned.
\<close>

definition wrap_error :: "string \<Rightarrow> error \<Rightarrow> error" where
  "wrap_error code err = (case err of TextDBXError c \<Rightarrow> TextDBXError c | other \<Rightarrow> TextDBXError code)"

definition readCollection_adv :: "platform \<Rightarrow> string \<Rightarrow> string \<Rightarrow> string \<Rightarrow> engine \<Rightarrow> world \<Rightarrow> (error + nat) \<times> engine" where
  "readCollection_adv P collection filePath raw e w =
     (case (if mode (config_adv e) = ''encrypted'' then decrypt_adv P (config_adv e) raw else Inr raw) of
        Inl err \<Rightarrow> (Inl (wrap_error ''FILE_READ_ERROR'' err), e)
      | Inr json \<Rightarrow>
          (case JSON_parse P json of
             None \<Rightarrow> (Inl (TextDBXError ''DATA_CORRUPTION_ERROR''), e)
           | Some (JArr rows) \<Rightarrow>
               (case new_objects rows e of
                  (addrs, e1) \<Rightarrow>
                    (case new_array addrs e1 of
                       (a, e2) \<Rightarrow>
                         (case updateCache collection a (mtimes w filePath) e2 w of
                            Inl err \<Rightarrow> (Inl (wrap_error ''FILE_READ_ERROR'' err), e2)
                          | Inr e3 \<Rightarrow> (Inr a, e3))))
           | Some other \<Rightarrow> (Inl (TextDBXError ''DATA_FORMAT_ERROR''), e)))"

definition loadFile_adv :: "platform \<Rightarrow> string \<Rightarrow> engine \<Rightarrow> world \<Rightarrow> (error + nat) \<times> engine" where
  "loadFile_adv P collection e w =
     (case getCollectionPath (config_adv e) collection of
        Inl err \<Rightarrow> (Inl err, e)
      | Inr filePath \<Rightarrow>
          (case files w filePath of
             None \<Rightarrow> (case new_array [] e of (a, e1) \<Rightarrow> (Inr a, e1))
           | Some raw \<Rightarrow>
               (case map_of (cache e) collection of
                  None \<Rightarrow> readCollection_adv P collection filePath raw e w
                | Some cached \<Rightarrow>
                    if lastModified cached \<ge> mtimes w filePath
                    then (Inr (data_of cached),
                          e\<lparr>cache := map_set (cache e) collection
                               (cached\<lparr>accessCount := Suc (accessCount cached), lastAccessed := clock w\<rparr>)\<rparr>)
                    else readCollection_adv P collection filePath raw e w)))"

text \<open>
  \<^verbatim>\<open>
  private async saveFile(collection: string, data: DataRecord[]): Promise<void> {
      const filePath = this.getCollectionPath(collection);
      return this.withFileLock(filePath, async () => {
          try {
              const json = JSON.stringify(data, null, 2);
              const raw = this.config.mode === 'encrypted' ? this.encrypt(json) : json;
              // Write to temporary file first
              const tempPath = filePath + '.tmp';
              await fs.promises.writeFile(tempPath, raw, 'utf8');
              // Atomic rename
              await fs.promises.rename(tempPath, filePath);
              // Update cache
              this.updateCache(collection, data, Date.now());
          } catch (error) {
              throw new TextDBXError(`Failed to save collection ...`, 'FILE_WRITE_ERROR');
          }
      });
  }
  \<close>
\<close>

definition encode_adv :: "platform \<Rightarrow> advConfig \<Rightarrow> string \<Rightarrow> world \<Rightarrow> (error + string) \<times> world" where
  "encode_adv P cfg json w =
     (if mode cfg = ''encrypted'' then encrypt_adv P cfg json w else (Inr json, w))"

definition saveFile_adv :: "platform \<Rightarrow> string \<Rightarrow> nat \<Rightarrow> engine \<Rightarrow> world \<Rightarrow> (error + unit) \<times> engine \<times> world" where
  "saveFile_adv P collection dataAddr e w =
     (case getCollectionPath (config_adv e) collection of
        Inl err \<Rightarrow> (Inl err, e, w)
      | Inr filePath \<Rightarrow>
          let json = JSON_stringify P (JArr (array_value e dataAddr)) in
          (case encode_adv P (config_adv e) json w of
             (Inl err, w1) \<Rightarrow> (Inl (TextDBXError ''FILE_WRITE_ERROR''), e, w1)
           | (Inr raw, w1) \<Rightarrow>
               let tempPath = filePath @ ''.tmp'';
                   w2 = writeFile tempPath raw w1;
                   w3 = rename tempPath filePath w2
               in (case updateCache collection dataAddr (clock w3) e w3 of
                     Inl err \<Rightarrow> (Inl (TextDBXError ''FILE_WRITE_ERROR''), e, w3)
                   | Inr e1 \<Rightarrow> (Inr (), e1, w3))))"

text \<open>
  \<^verbatim>\<open>
  private async insertInternal(collection: string, record: DataRecord): Promise<void> {
      const data = await this.loadFile(collection);
      data.push(record);
      await this.saveFile(collection, data);
  }
  private async updateInternal(collection, filter, changes): Promise<void> {
      const data = await this.loadFile(collection);
      for (const row of data) {
          if (this.matchFilter(row, filter)) { Object.assign(row, changes); }
      }
      await this.saveFile(collection, data);
  }
  private async deleteInternal(collection: string, filter: QueryFilter): Promise<void> {
      const data = await this.loadFile(collection);
      const filtered = data.filter(row => !this.matchFilter(row, filter));
      await this.saveFile(collection, filtered);
  }
  \<close>
  The record a caller inserts is an object of the caller: it gets a cell of its own.
\<close>

definition insertInternal :: "platform \<Rightarrow> string \<Rightarrow> json \<Rightarrow> engine \<Rightarrow> world \<Rightarrow> (error + unit) \<times> engine \<times> world" where
  "insertInternal P collection record e w =
     (case loadFile_adv P collection e w of
        (Inl err, e1) \<Rightarrow> (Inl err, e1, w)
      | (Inr dataAddr, e1) \<Rightarrow>
          (case new_object record e1 of
             (r, e2) \<Rightarrow>
               saveFile_adv P collection dataAddr
                 (e2\<lparr>arrays := (arrays e2)(dataAddr := arrays e2 dataAddr @ [r])\<rparr>) w))"

fun updateLoop_adv :: "json \<Rightarrow> json \<Rightarrow> nat list \<Rightarrow> engine \<Rightarrow> error + engine" where
  "updateLoop_adv flt changes [] e = Inr e"
| "updateLoop_adv flt changes (row # rows) e =
     (case matchFilter_adv (objects e row) flt of
        Inl err \<Rightarrow> Inl err
      | Inr False \<Rightarrow> updateLoop_adv flt changes rows e
      | Inr True \<Rightarrow>
          (case object_assign (objects e row) changes of
             Inl err \<Rightarrow> Inl err
           | Inr v \<Rightarrow> updateLoop_adv flt changes rows (e\<lparr>objects := (objects e)(row := v)\<rparr>)))"

definition updateInternal :: "platform \<Rightarrow> string \<Rightarrow> json \<Rightarrow> json \<Rightarrow> engine \<Rightarrow> world \<Rightarrow> (error + unit) \<times> engine \<times> world" where
  "updateInternal P collection flt changes e w =
     (case loadFile_adv P collection e w of
        (Inl err, e1) \<Rightarrow> (Inl err, e1, w)
      | (Inr dataAddr, e1) \<Rightarrow>
          (case updateLoop_adv flt changes (arrays e1 dataAddr) e1 of
             Inl err \<Rightarrow> (Inl err, e1, w)
           | Inr e2 \<Rightarrow> saveFile_adv P collection dataAddr e2 w))"

fun filterLoop_adv :: "json \<Rightarrow> nat list \<Rightarrow> engine \<Rightarrow> error + nat list" where
  "filterLoop_adv flt [] e = Inr []"
| "filterLoop_adv flt (row # rows) e =
     (case matchFilter_adv (objects e row) flt of
        Inl err \<Rightarrow> Inl err
      | Inr b \<Rightarrow>
          (case filterLoop_adv flt rows e of
             Inl err \<Rightarrow> Inl err
           | Inr kept \<Rightarrow> Inr (if b then kept else row # kept)))"

definition deleteInternal :: "platform \<Rightarrow> string \<Rightarrow> json \<Rightarrow> engine \<Rightarrow> world \<Rightarrow> (error + unit) \<times> engine \<times> world" where
  "deleteInternal P collection flt e w =
     (case loadFile_adv P collection e w of
        (Inl err, e1) \<Rightarrow> (Inl err, e1, w)
      | (Inr dataAddr, e1) \<Rightarrow>
          (case filterLoop_adv flt (arrays e1 dataAddr) e1 of
             Inl err \<Rightarrow> (Inl err, e1, w)
           | Inr kept \<Rightarrow>
               (case new_array kept e1 of
                  (filtered, e2) \<Rightarrow> saveFile_adv P collection filtered e2 w)))"

text \<open>
  \<^verbatim>\<open>
  public async beginTransaction(): Promise<string> {
      const transactionId = crypto.randomUUID();
      const transaction: Transaction = { id: transactionId, operations: [], backups: new Map(), status: 'pending' };
      this.activeTransactions.set(transactionId, transaction);
      return transactionId;
  }
  \<close>
  The identifier is taken as the hexadecimal text of sixteen random bytes.
\<close>

definition beginTransaction :: "platform \<Rightarrow> engine \<Rightarrow> world \<Rightarrow> string \<times> engine \<times> world" where
  "beginTransaction P e w =
     (case randomBytes P 16 w of
        (bytes, w1) \<Rightarrow>
          (hex_encode bytes,
           e\<lparr>activeTransactions := map_set (activeTransactions e) (hex_encode bytes)
                \<lparr>operations = [], backups = [], status = ''pending''\<rparr>\<rparr>,
           w1))"

text \<open>
  \<^verbatim>\<open>
  private async executeOperation(operation: TransactionOperation, transaction: Transaction): Promise<void> {
      // Create backup before operation
      if (!transaction.backups.has(operation.collection)) {
          const currentData = await this.loadFile(operation.collection);
          transaction.backups.set(operation.collection, [...currentData]);
      }
      switch (operation.type) {
          case 'insert':
              if (operation.data) { await this.insertInternal(operation.collection, operation.data); }
              break;
          case 'update':
              if (operation.filter && operation.changes) {
                  await this.updateInternal(operation.collection, operation.filter, operation.changes);
              }
              break;
          case 'delete':
              if (operation.filter) { await this.deleteInternal(operation.collection, operation.filter); }
              break;
      }
  }
  \<close>
  The transaction is the one stored under the identifier; \<open>backups.set\<close> changes it there.
\<close>

definition takeBackup :: "platform \<Rightarrow> string \<Rightarrow> string \<Rightarrow> engine \<Rightarrow> world \<Rightarrow> (error + unit) \<times> engine" where
  "takeBackup P transactionId collection e w =
     (case map_of (activeTransactions e) transactionId of
        None \<Rightarrow> (Inr (), e)
      | Some tx \<Rightarrow>
          if collection \<in> fst ` set (backups tx) then (Inr (), e)
          else (case loadFile_adv P collection e w of
                  (Inl err, e1) \<Rightarrow> (Inl err, e1)
                | (Inr currentData, e1) \<Rightarrow>
                    (case new_array (arrays e1 currentData) e1 of
                       (copy, e2) \<Rightarrow>
                         (Inr (),
                          e2\<lparr>activeTransactions := map_set (activeTransactions e2) transactionId
                               (tx\<lparr>backups := map_set (backups tx) collection copy\<rparr>)\<rparr>))))"

definition executeOperation :: "platform \<Rightarrow> transactionOperation \<Rightarrow> string \<Rightarrow> engine \<Rightarrow> world \<Rightarrow> (error + unit) \<times> engine \<times> world" where
  "executeOperation P operation transactionId e w =
     (case takeBackup P transactionId (op_collection operation) e w of
        (Inl err, e1) \<Rightarrow> (Inl err, e1, w)
      | (Inr u, e1) \<Rightarrow>
          if op_type operation = ''insert'' then
            (if truthy (op_data operation)
             then insertInternal P (op_collection operation) (op_data operation) e1 w
             else (Inr (), e1, w))
          else if op_type operation = ''update'' then
            (if truthy (op_filter operation) \<and> truthy (op_changes operation)
             then updateInternal P (op_collection operation) (op_filter operation) (op_changes operation) e1 w
             else (Inr (), e1, w))
          else if op_type operation = ''delete'' then
            (if truthy (op_filter operation)
             then deleteInternal P (op_collection operation) (op_filter operation) e1 w
             else (Inr (), e1, w))
          else (Inr (), e1, w))"

text \<open>
  \<^verbatim>\<open>
  public async rollbackTransaction(transactionId: string): Promise<void> {
      const transaction = this.activeTransactions.get(transactionId);
      if (!transaction) { throw new TransactionError('Transaction not found', transactionId); }
      try {
          // Restore backups
          for (const [collection, backup] of transaction.backups) {
              await this.saveFile(collection, backup);
          }
          transaction.status = 'rolled_back';
          this.activeTransactions.delete(transactionId);
      } catch (error) {
          throw new TransactionError(`Transaction rollback failed: ...`, transactionId);
      }
  }
  \<close>
\<close>

fun restoreBackups :: "platform \<Rightarrow> (string \<times> nat) list \<Rightarrow> engine \<Rightarrow> world \<Rightarrow> (error + unit) \<times> engine \<times> world" where
  "restoreBackups P [] e w = (Inr (), e, w)"
| "restoreBackups P ((collection, backup) # rest) e w =
     (case saveFile_adv P collection backup e w of
        (Inl err, e1, w1) \<Rightarrow> (Inl err, e1, w1)
      | (Inr u, e1, w1) \<Rightarrow> restoreBackups P rest e1 w1)"

definition rollbackTransaction :: "platform \<Rightarrow> string \<Rightarrow> engine \<Rightarrow> world \<Rightarrow> (error + unit) \<times> engine \<times> world" where
  "rollbackTransaction P transactionId e w =
     (case map_of (activeTransactions e) transactionId of
        None \<Rightarrow> (Inl (TextDBXError ''TRANSACTION_ERROR''), e, w)
      | Some tx \<Rightarrow>
          (case restoreBackups P (backups tx) e w of
             (Inl err, e1, w1) \<Rightarrow> (Inl (TextDBXError ''TRANSACTION_ERROR''), e1, w1)
           | (Inr u, e1, w1) \<Rightarrow>
               (Inr (), e1\<lparr>activeTransactions := map_delete (activeTransactions e1) transactionId\<rparr>, w1)))"

text \<open>
  \<^verbatim>\<open>
  public async commitTransaction(transactionId: string): Promise<void> {
      const transaction = this.activeTransactions.get(transactionId);
      if (!transaction) { throw new TransactionError('Transaction not found', transactionId); }
      try {
          // Execute all operations
          for (const operation of transaction.operations) {
              await this.executeOperation(operation, transaction);
          }
          transaction.status = 'committed';
          this.activeTransactions.delete(transactionId);
      } catch (error) {
          await this.rollbackTransaction(transactionId);
          throw new TransactionError(`Transaction commit failed: ...`, transactionId);
      }
  }
  \<close>
  Whether the rollback succeeds or throws, what leaves is a \<open>TransactionError\<close>.
\<close>

fun executeOperations :: "platform \<Rightarrow> transactionOperation list \<Rightarrow> string \<Rightarrow> engine \<Rightarrow> world \<Rightarrow> (error + unit) \<times> engine \<times> world" where
  "executeOperations P [] transactionId e w = (Inr (), e, w)"
| "executeOperations P (operation # rest) transactionId e w =
     (case executeOperation P operation transactionId e w of
        (Inl err, e1, w1) \<Rightarrow> (Inl err, e1, w1)
      | (Inr u, e1, w1) \<Rightarrow> executeOperations P rest transactionId e1 w1)"

definition commitTransaction :: "platform \<Rightarrow> string \<Rightarrow> engine \<Rightarrow> world \<Rightarrow> (error + unit) \<times> engine \<times> world" where
  "commitTransaction P transactionId e w =
     (case map_of (activeTransactions e) transactionId of
        None \<Rightarrow> (Inl (TextDBXError ''TRANSACTION_ERROR''), e, w)
      | Some tx \<Rightarrow>
          (case executeOperations P (operations tx) transactionId e w of
             (Inl err, e1, w1) \<Rightarrow>
               (case rollbackTransaction P transactionId e1 w1 of
                  (r, e2, w2) \<Rightarrow> (Inl (TextDBXError ''TRANSACTION_ERROR''), e2, w2))
           | (Inr u, e1, w1) \<Rightarrow>
               (Inr (), e1\<lparr>activeTransactions := map_delete (activeTransactions e1) transactionId\<rparr>, w1)))"

text \<open>
  \<^verbatim>\<open>
  private checkPermission(action: string): void {
      const role = this.config.role;
      if (!this.auth[role] || !this.auth[role].includes(action)) { throw new PermissionError(action, role); }
  }
  public async insert(collection: string, record: DataRecord): Promise<void> {
      this.checkPermission('insert');
      const connection = await this.connectionPool.acquireConnection();
      try { await this.insertInternal(collection, record); } finally { connection.release(); }
  }
  \<close>
  The connection pool counts the callers it has admitted and makes a caller wait when ten
  are active. The model runs one call at a time: every call finds the pool free, takes a
  connection and gives it back, whatever the outcome, so the pool is left out, as is
  the file lock of \<open>saveFile\<close>.
\<close>

definition checkPermission_adv :: "engine \<Rightarrow> string \<Rightarrow> error + unit" where
  "checkPermission_adv e action =
     (case auth_adv e (role (config_adv e)) of
        None \<Rightarrow> Inl (TextDBXError ''PERMISSION_DENIED'')
      | Some actions \<Rightarrow>
          if action \<in> set actions then Inr () else Inl (TextDBXError ''PERMISSION_DENIED''))"

definition insert_adv :: "platform \<Rightarrow> string \<Rightarrow> json \<Rightarrow> engine \<Rightarrow> world \<Rightarrow> (error + unit) \<times> engine \<times> world" where
  "insert_adv P collection record e w =
     (case checkPermission_adv e ''insert'' of
        Inl err \<Rightarrow> (Inl err, e, w)
      | Inr u \<Rightarrow> insertInternal P collection record e w)"

text \<open>
  \<^verbatim>\<open>
  public async update(collection: string, filter: QueryFilter, changes: Partial<DataRecord>): Promise<void> {
      this.checkPermission('update');
      const connection = await this.connectionPool.acquireConnection();
      try { await this.updateInternal(collection, filter, changes); } finally { connection.release(); }
  }
  public async delete(collection: string, filter: QueryFilter): Promise<void> {
      this.checkPermission('delete');
      const connection = await this.connectionPool.acquireConnection();
      try { await this.deleteInternal(collection, filter); } finally { connection.release(); }
  }
  \<close>
\<close>

definition update_adv :: "platform \<Rightarrow> string \<Rightarrow> json \<Rightarrow> json \<Rightarrow> engine \<Rightarrow> world \<Rightarrow> (error + unit) \<times> engine \<times> world" where
  "update_adv P collection flt changes e w =
     (case checkPermission_adv e ''update'' of
        Inl err \<Rightarrow> (Inl err, e, w)
      | Inr u \<Rightarrow> updateInternal P collection flt changes e w)"

definition delete_adv :: "platform \<Rightarrow> string \<Rightarrow> json \<Rightarrow> engine \<Rightarrow> world \<Rightarrow> (error + unit) \<times> engine \<times> world" where
  "delete_adv P collection flt e w =
     (case checkPermission_adv e ''delete'' of
        Inl err \<Rightarrow> (Inl err, e, w)
      | Inr u \<Rightarrow> deleteInternal P collection flt e w)"


subsection \<open>A sample platform\<close>

text \<open>
  A stand-in for the runtime, to run the model on concrete inputs. Its codec knows four
  documents, with the texts \<open>JSON.stringify(v, null, 2)\<close> gives them, and rejects the text
  \<open>not json\<close>. Its cipher checks the length of key and vector and pads the text as
  PKCS#7 does, without hiding it; its hash and key derivation return constant keys of the
  right length.
\<close>

definition record_text :: "string \<Rightarrow> nat \<Rightarrow> string" where
  "record_text k n =
     ''  {'' @ [CHR 0x0A] @ ''    '' @ [CHR 0x22] @ k @ [CHR 0x22] @ '': '' @ dec n @ [CHR 0x0A] @ ''  }''"

definition sample_documents :: "(json \<times> string) list" where
  "sample_documents =
     [(JArr [], ''[]''),
      (JArr [JObj [(''x'', JNum 1)]],
         ''['' @ [CHR 0x0A] @ record_text ''x'' 1 @ [CHR 0x0A] @ '']''),
      (JArr [JObj [(''x'', JNum 2)]],
         ''['' @ [CHR 0x0A] @ record_text ''x'' 2 @ [CHR 0x0A] @ '']''),
      (JArr [JObj [(''x'', JNum 1)], JObj [(''x'', JNum 2)]],
         ''['' @ [CHR 0x0A] @ record_text ''x'' 1 @ '','' @ [CHR 0x0A] @ record_text ''x'' 2
           @ [CHR 0x0A] @ '']'')]"

definition sample_stringify :: "json \<Rightarrow> string" where
  "sample_stringify v = (case map_of sample_documents v of Some s \<Rightarrow> s | None \<Rightarrow> ''null'')"

definition sample_parse :: "string \<Rightarrow> json option" where
  "sample_parse s = map_of (map (\<lambda>(v, t). (t, v)) sample_documents) s"

definition pkcs7_pad :: "string \<Rightarrow> string" where
  "pkcs7_pad s = (let n = 16 - length s mod 16 in s @ replicate n (char_of n))"

definition pkcs7_unpad :: "string \<Rightarrow> string option" where
  "pkcs7_unpad s =
     (if s = [] \<or> length s mod 16 \<noteq> 0 then None
      else let n = (of_char (last s) :: nat) in
           if 1 \<le> n \<and> n \<le> 16 \<and> drop (length s - n) s = replicate n (last s)
           then Some (take (length s - n) s) else None)"

definition sample_platform :: platform where
  "sample_platform =
     \<lparr>JSON_stringify = sample_stringify,
      JSON_parse = sample_parse,
      sha256 = (\<lambda>s. replicate 32 (CHR ''h'')),
      pbkdf2Sync = (\<lambda>password salt iterations keylen digest. replicate keylen (CHR ''k'')),
      cipher = (\<lambda>key iv text. if length key = 32 \<and> length iv = 16 then Some (pkcs7_pad text) else None),
      decipher = (\<lambda>key iv data. if length key = 32 \<and> length iv = 16 then pkcs7_unpad data else None),
      random_source = (\<lambda>n. char_of n)\<rparr>"

definition sample_config :: "string \<Rightarrow> connectConfig" where
  "sample_config m =
     \<lparr>database = ''db'', encryptionKey = ''correct horse battery staple'', mode = m, role = ''admin''\<rparr>"

definition sample_db :: "string \<Rightarrow> textDBX" where
  "sample_db m =
     \<lparr>config = sample_config m,
      auth = [''admin'' \<mapsto> [''query'', ''insert'', ''update'', ''delete'', ''index''],
              ''reader'' \<mapsto> [''query'']]\<rparr>"

definition sample_world :: "(string \<rightharpoonup> string) \<Rightarrow> world" where
  "sample_world fs = \<lparr>files = fs, mtimes = (\<lambda>p. 0), clock = 42, drawn = 0, observed = []\<rparr>"

definition sample_engine :: "string \<Rightarrow> engine" where
  "sample_engine m =
     \<lparr>config_adv = \<lparr>database = ''db'', encryptionKey = ''correct horse battery staple'', mode = m,
                     role = ''admin'', maxCacheSize = 100\<rparr>,
      auth_adv = [''admin'' \<mapsto> [''query'', ''insert'', ''update'', ''delete'', ''index'']],
      cache = [],
      activeTransactions = [],
      arrays = (\<lambda>a. []),
      objects = (\<lambda>a. JUndefined),
      next_addr = 0\<rparr>"


text \<open>
  A pending transaction with two operations: an update of every record of \<open>notes\<close>, then
  an insert into a collection whose name \<open>validateCollectionName\<close> rejects.
\<close>

definition sample_pending :: transaction where
  "sample_pending =
     \<lparr>operations =
        [\<lparr>op_type = ''update'', op_collection = ''notes'', op_data = JUndefined,
          op_filter = JObj [], op_changes = JObj [(''x'', JNum 2)]\<rparr>,
         \<lparr>op_type = ''insert'', op_collection = ''bad name'', op_data = JObj [(''x'', JNum 1)],
          op_filter = JUndefined, op_changes = JUndefined\<rparr>],
      backups = [], status = ''pending''\<rparr>"

section \<open>Properties\<close>

subsection \<open>Buffers, separators and white space\<close>

lemma below_16:
  "n < 16 \<Longrightarrow> n \<in> {0, 1, 2, 3, 4, 5, 6, 7, 8, 9, 10, 11, 12, 13, 14, 15 :: nat}"
  by simp arith

lemma hex_val_digit: "n < 16 \<Longrightarrow> hex_val (hex_digit n) = Some n"
  by (drule below_16) (auto simp: hex_val_def hex_digit_def digit_char_def Let_def)

lemma hex_digit_not_colon: "n < 16 \<Longrightarrow> hex_digit n \<noteq> CHR '':''"
proof
  assume n: "n < 16" and "hex_digit n = CHR '':''"
  then have "hex_val (hex_digit n) = hex_val CHR '':''" by simp
  with n show False by (simp add: hex_val_digit) (simp add: hex_val_def)
qed


lemma colon_notin_hex: "CHR '':'' \<notin> set (hex_encode bs)"
proof (induction bs)
  case Nil
  show ?case by simp
next
  case (Cons b bs)
  have "(of_char b :: nat) < 256" by simp
  then have d: "(of_char b :: nat) div 16 < 16" by arith
  have m: "(of_char b :: nat) mod 16 < 16" by simp
  from Cons hex_digit_not_colon[OF d] hex_digit_not_colon[OF m] show ?case by auto
qed


lemma split_on_no_sep: "d \<notin> set s \<Longrightarrow> split_on d s = [s]"
  by (induction s) auto

lemma split_on_first: "d \<notin> set a \<Longrightarrow> split_on d (a @ d # b) = a # split_on d b"
  by (induction a) auto

lemma split_envelope:
  "split_on CHR '':'' (hex_encode a @ '':'' @ hex_encode b) = [hex_encode a, hex_encode b]"
  using split_on_first[OF colon_notin_hex, of a "hex_encode b"] split_on_no_sep[OF colon_notin_hex, of b]
  by simp


lemma trim_empty: "(trim s = []) = (\<forall>c\<in>set s. is_space c)"
proof
  assume "trim s = []"
  then have all: "\<forall>c\<in>set (dropWhile is_space s). is_space c"
    by (simp add: trim_def dropWhile_eq_Nil_conv)
  have "dropWhile is_space s = []"
  proof (cases "dropWhile is_space s")
    case Nil
    then show ?thesis .
  next
    case (Cons a rest)
    then have "\<not> is_space a" using hd_dropWhile[of is_space s] by simp
    with Cons all show ?thesis by simp
  qed
  then show "\<forall>c\<in>set s. is_space c" by (simp add: dropWhile_eq_Nil_conv)
next
  assume "\<forall>c\<in>set s. is_space c"
  then have "dropWhile is_space s = []" by (simp add: dropWhile_eq_Nil_conv)
  then show "trim s = []" by (simp only: trim_def rev.simps dropWhile.simps)
qed

lemma split_envelope':
  "split_on CHR '':'' (hex_encode a @ CHR '':'' # hex_encode b) = [hex_encode a, hex_encode b]"
  using split_envelope[of a b] by simp



lemma files_writeFile: "files (writeFile p s w) = (files w)(p \<mapsto> s)"
  by (simp add: writeFile_def)

lemma files_copyFile:
  "files (copyFile src dst w) = (case files w src of None \<Rightarrow> files w | Some s \<Rightarrow> (files w)(dst \<mapsto> s))"
  by (simp add: copyFile_def files_writeFile split: option.splits)

lemma files_encode_ex: "files (snd (encode_ex P cfg text w)) = files w"
  by (simp add: encode_ex_def encrypt_ex_def randomBytes_def Let_def split: option.splits)





lemma files_saveFile_ex:
  assumes "encode_ex P cfg (JSON_stringify P (JArr data)) w = (Inr raw, w1)"
  shows "fst (saveFile_ex P cfg c data w) = Inr ()"
    and "files (snd (saveFile_ex P cfg c data w)) =
           (case files w (collectionPath cfg c) of
              None \<Rightarrow> (files w)(collectionPath cfg c \<mapsto> raw)
            | Some old \<Rightarrow> (files w)(collectionPath cfg c @ ''.backup'' \<mapsto> old, collectionPath cfg c \<mapsto> raw))"
proof -
  have f: "files w1 = files w" using files_encode_ex[of P cfg "JSON_stringify P (JArr data)" w] assms by simp
  show "fst (saveFile_ex P cfg c data w) = Inr ()"
    using assms by (simp add: saveFile_ex_def Let_def)
  show "files (snd (saveFile_ex P cfg c data w)) =
           (case files w (collectionPath cfg c) of
              None \<Rightarrow> (files w)(collectionPath cfg c \<mapsto> raw)
            | Some old \<Rightarrow> (files w)(collectionPath cfg c @ ''.backup'' \<mapsto> old, collectionPath cfg c \<mapsto> raw))"
    using assms f
    by (simp add: saveFile_ex_def Let_def existsSync_def files_writeFile files_copyFile split: option.splits)
qed

lemma observed_encode_ex: "observed (snd (encode_ex P cfg t w)) = observed w"
  by (simp add: encode_ex_def encrypt_ex_def randomBytes_def Let_def split: option.splits)

lemma saveFile_ex_backup:
  assumes stored: "files w (collectionPath cfg c) = Some old"
    and saved: "saveFile_ex P cfg c data w = (Inr (), w')"
  shows "files w' (collectionPath cfg c @ ''.backup'') = Some old
       \<and> (\<exists>raw. files w' (collectionPath cfg c) = Some raw
            \<and> observed w' = observed w
                 @ map (\<lambda>n. (files w)(collectionPath cfg c @ ''.backup'' \<mapsto> take n old))
                       [0..<Suc (length old)]
                 @ map (\<lambda>n. (files w)(collectionPath cfg c @ ''.backup'' \<mapsto> old,
                                         collectionPath cfg c \<mapsto> take n raw))
                       [0..<Suc (length raw)])"
proof -
  let ?p = "collectionPath cfg c"
  from saved obtain raw w1 where
    enc: "encode_ex P cfg (JSON_stringify P (JArr data)) w = (Inr raw, w1)" and
    w': "w' = writeFile ?p raw (if existsSync ?p w1 then copyFile ?p (?p @ ''.backup'') w1 else w1)"
    by (auto simp: saveFile_ex_def Let_def split: prod.splits sum.splits)
  have f1: "files w1 = files w" using files_encode_ex[of P cfg "JSON_stringify P (JArr data)" w] enc by simp
  have o1: "observed w1 = observed w" using observed_encode_ex[of P cfg "JSON_stringify P (JArr data)" w] enc by simp
  from stored f1 have ex: "existsSync ?p w1" by (simp add: existsSync_def)
  have "files w' (?p @ ''.backup'') = Some old"
    using w' ex stored f1 by (simp add: files_writeFile files_copyFile)
  moreover have "files w' ?p = Some raw" using w' by (simp add: files_writeFile)
  moreover have "observed w' = observed w
                 @ map (\<lambda>n. (files w)(?p @ ''.backup'' \<mapsto> take n old)) [0..<Suc (length old)]
                 @ map (\<lambda>n. (files w)(?p @ ''.backup'' \<mapsto> old, ?p \<mapsto> take n raw)) [0..<Suc (length raw)]"
    using w' ex stored f1 o1 by (simp add: writeFile_def copyFile_def)
  ultimately show ?thesis by blast
qed

lemma loadFile_ex_keeps:
  assumes "files w (collectionPath cfg c) \<noteq> None"
  shows "files (snd (loadFile_ex P cfg c w)) (collectionPath cfg c) \<noteq> None"
proof -
  have save: "files (snd (saveFile_ex P cfg c d v)) (collectionPath cfg c) \<noteq> None"
    if "files v (collectionPath cfg c) \<noteq> None" for d v
    using that files_encode_ex[of P cfg "JSON_stringify P (JArr d)" v]
    by (auto simp: saveFile_ex_def Let_def files_writeFile split: prod.splits sum.splits)
  have copy: "files (copyFile a b v) (collectionPath cfg c) \<noteq> None"
    if "files v (collectionPath cfg c) \<noteq> None" for a b v
    using that by (auto simp: files_copyFile split: option.splits)
  from assms show ?thesis
    by (auto simp: loadFile_ex_def Let_def save copy split: option.splits sum.splits json.splits
             simp del: not_None_eq)
qed

lemma insert_ex_saves:
  "insert_ex P db c r w = (Inr u, w') \<Longrightarrow>
     \<exists>data. saveFile_ex P (config db) c data (snd (loadFile_ex P (config db) c w)) = (Inr (), w')"
  by (auto simp: insert_ex_def Let_def split: sum.splits prod.splits if_splits)

lemma update_ex_saves:
  "update_ex P db c f ch w = (Inr n, w') \<Longrightarrow>
     \<exists>data. saveFile_ex P (config db) c data (snd (loadFile_ex P (config db) c w)) = (Inr (), w')"
  by (auto simp: update_ex_def Let_def split: sum.splits prod.splits if_splits)

lemma delete_ex_saves:
  "delete_ex P db c f w = (Inr n, w') \<Longrightarrow>
     \<exists>data. saveFile_ex P (config db) c data (snd (loadFile_ex P (config db) c w)) = (Inr (), w')"
  by (auto simp: delete_ex_def Let_def split: sum.splits prod.splits if_splits)

lemma loadFile_ex_reads:
  assumes "files w (collectionPath cfg c) = Some raw" "trim raw \<noteq> []"
    "decode_ex P cfg raw = Inr js" "JSON_parse P js = Some v"
  shows "snd (loadFile_ex P cfg c w) = w"
  using assms by (simp add: loadFile_ex_def Let_def split: json.splits)

lemma filter_rows_all: "filter_rows (\<lambda>row. Inr True) rows = Inr rows"
  by (induction rows) simp_all

lemma filter_rows_none: "filter_rows (\<lambda>row. Inr False) rows = Inr []"
  by (induction rows) simp_all

lemma map_rows_id: "map_rows (\<lambda>row. Inr row) rows = Inr rows"
  by (induction rows) simp_all

lemma matchFilter_absent:
  "matchFilter_ex r JUndefined = Inr True" "matchFilter_ex r (JObj []) = Inr True"
  "matchFilter_src r JUndefined = Inr True" "matchFilter_src r (JObj []) = Inr True"
  by (simp_all add: matchFilter_ex_def matchFilter_src_def)

lemma split_envelope3:
  "split_on CHR '':'' (hex_encode a @ '':'' @ hex_encode b @ '':'' @ hex_encode c)
     = [hex_encode a, hex_encode b, hex_encode c]"
proof -
  have "split_on CHR '':'' (hex_encode a @ CHR '':'' # (hex_encode b @ CHR '':'' # hex_encode c))
          = hex_encode a # split_on CHR '':'' (hex_encode b @ CHR '':'' # hex_encode c)"
    by (rule split_on_first[OF colon_notin_hex])
  then show ?thesis by (simp add: split_envelope')
qed

lemma encrypt_adv_envelope:
  assumes "encrypt_adv P cfg t w = (Inr raw, w')"
  shows "\<exists>encrypted.
           cipher P (pbkdf2Sync P (encryptionKey cfg) (map (random_source P) [drawn w..<drawn w + 16])
                       100000 32 ''sha256'')
                    (map (random_source P) [drawn w + 16..<drawn w + 32]) t = Some encrypted
         \<and> raw = hex_encode (map (random_source P) [drawn w..<drawn w + 16]) @ '':''
                 @ hex_encode (map (random_source P) [drawn w + 16..<drawn w + 32]) @ '':''
                 @ hex_encode encrypted
         \<and> split_on CHR '':'' raw
               = [hex_encode (map (random_source P) [drawn w..<drawn w + 16]),
                  hex_encode (map (random_source P) [drawn w + 16..<drawn w + 32]),
                  hex_encode encrypted]
         \<and> length (map (random_source P) [drawn w..<drawn w + 16]) = 16
         \<and> length (map (random_source P) [drawn w + 16..<drawn w + 32]) = 16
         \<and> drawn w' = drawn w + 32"
proof -
  let ?salt = "map (random_source P) [drawn w..<drawn w + 16]"
  let ?iv = "map (random_source P) [drawn w + 16..<drawn w + 32]"
  let ?key = "pbkdf2Sync P (encryptionKey cfg) ?salt 100000 32 ''sha256''"
  from assms obtain encrypted where
    c: "cipher P ?key ?iv t = Some encrypted" and
    raw: "raw = hex_encode ?salt @ '':'' @ hex_encode ?iv @ '':'' @ hex_encode encrypted" and
    d: "drawn w' = drawn w + 32"
    by (auto simp: encrypt_adv_def randomBytes_def deriveKey_def Let_def add.assoc
             split: option.splits)
  have "split_on CHR '':'' raw = [hex_encode ?salt, hex_encode ?iv, hex_encode encrypted]"
    unfolding raw by (rule split_envelope3)
  with c raw d show ?thesis by simp
qed

lemma drawn_writeFile: "drawn (writeFile p s w) = drawn w"
  by (simp add: writeFile_def)

lemma drawn_rename: "drawn (rename a b w) = drawn w"
  by (simp add: rename_def)

lemma files_rename: "files (rename a b w) = (files w)(b := files w a, a := None)"
  by (simp add: rename_def)

lemma files_encode_adv: "files (snd (encode_adv P cfg t w)) = files w"
  by (simp add: encode_adv_def encrypt_adv_def randomBytes_def Let_def split: option.splits)

lemma observed_encode_adv: "observed (snd (encode_adv P cfg t w)) = observed w"
  by (simp add: encode_adv_def encrypt_adv_def randomBytes_def Let_def split: option.splits)

lemma tmp_path_differs: "p @ ''.tmp'' \<noteq> p"
  by simp

lemma saveFile_adv_world:
  assumes "saveFile_adv P c a e w = (Inr (), e', w')"
  shows "\<exists>path raw w1. getCollectionPath (config_adv e) c = Inr path
           \<and> encode_adv P (config_adv e) (JSON_stringify P (JArr (array_value e a))) w = (Inr raw, w1)
           \<and> w' = rename (path @ ''.tmp'') path (writeFile (path @ ''.tmp'') raw w1)"
  using assms
  by (auto simp: saveFile_adv_def Let_def split: sum.splits prod.splits)

lemma saveFile_ex_envelope:
  assumes "mode cfg = ''encrypted''"
    and "cipher P (sha256 P (encryptionKey cfg)) (map (random_source P) [drawn w..<drawn w + 16])
           (JSON_stringify P (JArr rows)) = Some encrypted"
  shows "map_option (split_on CHR '':'') (files (snd (saveFile_ex P cfg c rows w)) (collectionPath cfg c))
           = Some [hex_encode (map (random_source P) [drawn w..<drawn w + 16]), hex_encode encrypted]"
  using assms
  by (simp add: saveFile_ex_def encode_ex_def encrypt_ex_def randomBytes_def Let_def files_writeFile
        split_envelope')

lemma saveFile_src_envelope:
  assumes "mode cfg = ''encrypted''"
    and "cipher P (sha256 P (encryptionKey cfg)) (map (random_source P) [drawn w..<drawn w + 16])
           (JSON_stringify P (JArr rows)) = Some encrypted"
  shows "map_option (split_on CHR '':'') (files (snd (saveFile_src P cfg c rows w)) (collectionPath cfg c))
           = Some [hex_encode (map (random_source P) [drawn w..<drawn w + 16]), hex_encode encrypted]"
  using assms
  by (simp add: saveFile_src_def encrypt_src_def randomBytes_def Let_def files_writeFile
        split_envelope')

lemma saveFile_src_observed:
  assumes "mode cfg \<noteq> ''encrypted''"
  shows "observed (snd (saveFile_src P cfg c rows w))
           = observed w @ map (\<lambda>n. (files w)(collectionPath cfg c \<mapsto> take n (JSON_stringify P (JArr rows))))
                              [0..<Suc (length (JSON_stringify P (JArr rows)))]"
    and "files (snd (saveFile_src P cfg c rows w))
           = (files w)(collectionPath cfg c \<mapsto> JSON_stringify P (JArr rows))"
  using assms by (simp_all add: saveFile_src_def writeFile_def Let_def)

lemma saveFile_ex_observed:
  assumes "mode cfg \<noteq> ''encrypted''" and "files w (collectionPath cfg c) = Some old"
  shows "observed (snd (saveFile_ex P cfg c rows w))
           = observed w
             @ map (\<lambda>n. (files w)(collectionPath cfg c @ ''.backup'' \<mapsto> take n old)) [0..<Suc (length old)]
             @ map (\<lambda>n. (files w)(collectionPath cfg c @ ''.backup'' \<mapsto> old,
                                     collectionPath cfg c \<mapsto> take n (JSON_stringify P (JArr rows))))
                   [0..<Suc (length (JSON_stringify P (JArr rows)))]"
    and "files (snd (saveFile_ex P cfg c rows w))
           = (files w)(collectionPath cfg c @ ''.backup'' \<mapsto> old,
                       collectionPath cfg c \<mapsto> JSON_stringify P (JArr rows))"
  using assms
  by (simp_all add: saveFile_ex_def encode_ex_def existsSync_def copyFile_def writeFile_def Let_def)

lemma list_ex_first:
  "Q (g 0) \<Longrightarrow> list_ex Q (xs @ map g [0..<Suc k])"
  by (simp add: upt_rec[of 0] del: upt_Suc)

lemma list_ex_first2:
  "Q (g 0) \<Longrightarrow> list_ex Q (xs @ ys @ map g [0..<Suc k])"
  by (simp add: upt_rec[of 0] del: upt_Suc)

subsection \<open>The sample platform\<close>



lemma sample_codec_x1:
  "JSON_parse sample_platform (JSON_stringify sample_platform (JArr [JObj [(''x'', JNum 1)]]))
     = Some (JArr [JObj [(''x'', JNum 1)]])"
  by (simp add: sample_platform_def sample_stringify_def sample_parse_def sample_documents_def
        record_text_def dec.simps)

lemma sample_text_x1:
  "trim (JSON_stringify sample_platform (JArr [JObj [(''x'', JNum 1)]])) \<noteq> []"
  by (simp add: trim_empty sample_platform_def sample_stringify_def sample_documents_def is_space_def)


lemma sample_plain_mode: "mode (sample_config ''plain'') \<noteq> ''encrypted''"
  by (simp add: sample_config_def)


lemma sample_text_empty: "JSON_stringify sample_platform (JArr []) = ''[]''"
  by (simp add: sample_platform_def sample_stringify_def sample_documents_def)

lemma sample_permissions:
  "checkPermission_ex (sample_db m) ''query'' = Inr ()"
  "checkPermission_ex (sample_db m) ''insert'' = Inr ()"
  "checkPermission_ex (sample_db m) ''delete'' = Inr ()"
  "checkPermission_src (sample_db m) ''query'' = Inr ()"
  "checkPermission_src (sample_db m) ''delete'' = Inr ()"
  by (simp_all add: checkPermission_ex_def checkPermission_src_def sample_db_def sample_config_def)

lemma sample_name: "validateCollectionName_ex ''notes'' = Inr ()"
  by (simp add: validateCollectionName_ex_def name_char_def)

lemma sample_load_x1:
  "loadFile_ex sample_platform (sample_config ''plain'') ''notes''
     (sample_world [collectionPath (sample_config ''plain'') ''notes''
                      \<mapsto> JSON_stringify sample_platform (JArr [JObj [(''x'', JNum 1)]])])
   = ([JObj [(''x'', JNum 1)]],
      sample_world [collectionPath (sample_config ''plain'') ''notes''
                      \<mapsto> JSON_stringify sample_platform (JArr [JObj [(''x'', JNum 1)]])])"
  using sample_codec_x1 sample_text_x1 sample_plain_mode
  by (simp add: loadFile_ex_def decode_ex_def sample_world_def Let_def)

lemma sample_config_db: "config (sample_db m) = sample_config m"
  by (simp add: sample_db_def)

lemma sample_insert_x2:
  "fst (insert_ex sample_platform (sample_db ''plain'') ''notes'' (JObj [(''x'', JNum 2)])
     (sample_world [collectionPath (sample_config ''plain'') ''notes''
                      \<mapsto> JSON_stringify sample_platform (JArr [JObj [(''x'', JNum 1)]])])) = Inr ()"
  using sample_plain_mode
  by (simp add: insert_ex_def sample_permissions sample_name sample_config_db sample_load_x1
        saveFile_ex_def encode_ex_def Let_def)

lemma sample_path_adv:
  "getCollectionPath (config_adv (sample_engine m)) ''notes'' = Inr ''db/notes.tdbx''"
  by (simp add: getCollectionPath_def validateCollectionName_adv_def name_char_def sample_engine_def
        path_join_def)

lemma sample_mode_adv: "mode (config_adv (sample_engine m)) = m"
  by (simp add: sample_engine_def)

lemma sample_array_adv: "array_value (sample_engine m) a = []"
  by (simp add: array_value_def sample_engine_def)

lemma sample_updateCache:
  "\<exists>e'. updateCache ''notes'' a t (sample_engine m) w = Inr e'"
  by (simp add: updateCache_def sample_engine_def new_array_def Let_def)

lemma sample_save_adv_encrypted:
  "fst (saveFile_adv sample_platform ''notes'' 0 (sample_engine ''encrypted'') (sample_world fs)) = Inr ()"
proof -
  have enc: "\<exists>raw w1. encode_adv sample_platform (config_adv (sample_engine ''encrypted''))
               (JSON_stringify sample_platform (JArr [])) (sample_world fs) = (Inr raw, w1)"
    by (simp add: encode_adv_def encrypt_adv_def randomBytes_def deriveKey_def sample_platform_def
          sample_engine_def sample_world_def Let_def)
  then obtain raw w1 where enc': "encode_adv sample_platform (config_adv (sample_engine ''encrypted''))
               (JSON_stringify sample_platform (JArr [])) (sample_world fs) = (Inr raw, w1)" by blast
  obtain e' where "updateCache ''notes'' 0
      (clock (rename (''db/notes.tdbx'' @ ''.tmp'') ''db/notes.tdbx'' (writeFile (''db/notes.tdbx'' @ ''.tmp'') raw w1)))
      (sample_engine ''encrypted'')
      (rename (''db/notes.tdbx'' @ ''.tmp'') ''db/notes.tdbx'' (writeFile (''db/notes.tdbx'' @ ''.tmp'') raw w1)) = Inr e'"
    using sample_updateCache by blast
  with enc' show ?thesis
    by (simp add: saveFile_adv_def sample_path_adv sample_array_adv Let_def)
qed

lemma sample_save_adv_plain:
  "fst (saveFile_adv sample_platform ''notes'' 0 (sample_engine ''plain'') (sample_world fs)) = Inr ()"
proof -
  have enc': "encode_adv sample_platform (config_adv (sample_engine ''plain''))
               (JSON_stringify sample_platform (JArr [])) (sample_world fs) = (Inr ''[]'', sample_world fs)"
    by (simp add: encode_adv_def sample_mode_adv sample_text_empty)
  obtain e' where "updateCache ''notes'' 0
      (clock (rename (''db/notes.tdbx'' @ ''.tmp'') ''db/notes.tdbx'' (writeFile (''db/notes.tdbx'' @ ''.tmp'') ''[]'' (sample_world fs))))
      (sample_engine ''plain'')
      (rename (''db/notes.tdbx'' @ ''.tmp'') ''db/notes.tdbx'' (writeFile (''db/notes.tdbx'' @ ''.tmp'') ''[]'' (sample_world fs))) = Inr e'"
    using sample_updateCache by blast
  with enc' show ?thesis
    by (simp add: saveFile_adv_def sample_path_adv sample_array_adv Let_def)
qed

subsection \<open>A file that cannot be decrypted\<close>

text \<open>
  Claim C1 asks that such a load fails. In the examples engine it does not: in encrypted
  mode, when \<open>decrypt\<close> throws on the content of the file, whatever the reason, \<open>loadFile\<close>
  returns the empty array and leaves the file as it is. The error \<open>Cannot decrypt\<close> that
  the inner \<open>catch\<close> throws is caught by the outer one.
\<close>

theorem loadFile_ex_decrypt_failure:
  assumes "files w (collectionPath cfg c) = Some raw"
    and "trim raw \<noteq> []"
    and "mode cfg = ''encrypted''"
    and "decrypt_ex P cfg raw = Inl e"
  shows "loadFile_ex P cfg c w = ([], w)"
  using assms by (simp add: loadFile_ex_def decode_ex_def Let_def)

theorem loadFile_ex_decrypt_failure_witness:
  "decrypt_ex sample_platform (sample_config ''encrypted'') ''zz'' = Inl (Error ''Decryption failed'')
   \<and> loadFile_ex sample_platform (sample_config ''encrypted'') ''notes''
         (sample_world [collectionPath (sample_config ''encrypted'') ''notes'' \<mapsto> ''zz''])
       = ([], sample_world [collectionPath (sample_config ''encrypted'') ''notes'' \<mapsto> ''zz''])"
proof -
  define w where "w = sample_world [collectionPath (sample_config ''encrypted'') ''notes'' \<mapsto> ''zz'']"
  have stored: "files w (collectionPath (sample_config ''encrypted'') ''notes'') = Some ''zz''"
    by (simp add: w_def sample_world_def)
  have nonblank: "trim ''zz'' \<noteq> []" by (simp add: trim_empty is_space_def)
  have encrypted: "mode (sample_config ''encrypted'') = ''encrypted''" by (simp add: sample_config_def)
  have fails: "decrypt_ex sample_platform (sample_config ''encrypted'') ''zz''
                 = Inl (Error ''Decryption failed'')"
    by (simp add: decrypt_ex_def)
  from loadFile_ex_decrypt_failure [OF stored nonblank encrypted fails] fails
  show ?thesis unfolding w_def by (rule conjI[rotated])
qed

subsection \<open>Saving, then loading\<close>



subsection \<open>Writing through a temporary file\<close>

text \<open>
  Claim C2, as the advanced engine has it, in either mode. A successful \<open>saveFile\<close> takes
  the JSON text of the records, encrypts it in encrypted mode, writes the result to
  \<open><path>.tmp\<close> and renames that file onto \<open><path>\<close>: another reader sees \<open><path>.tmp\<close>
  grow and then, in one step, \<open><path>\<close> with the new content; at every moment \<open><path>\<close>
  holds either what it held before the save or the whole new content.
\<close>

theorem saveFile_adv_atomic:
  assumes "saveFile_adv P c a e w = (Inr (), e', w')"
  shows "\<exists>path raw. getCollectionPath (config_adv e) c = Inr path
           \<and> fst (encode_adv P (config_adv e) (JSON_stringify P (JArr (array_value e a))) w) = Inr raw
           \<and> observed w' = observed w
                @ map (\<lambda>n. (files w)(path @ ''.tmp'' \<mapsto> take n raw)) [0..<Suc (length raw)]
                @ [(files w)(path @ ''.tmp'' := None, path \<mapsto> raw)]
           \<and> files w' = (files w)(path @ ''.tmp'' := None, path \<mapsto> raw)
           \<and> (\<forall>s\<in>set (drop (length (observed w)) (observed w')).
                 s path = files w path \<or> s path = Some raw)"
proof -
  from saveFile_adv_world[OF assms] obtain path raw w1 where
    p: "getCollectionPath (config_adv e) c = Inr path" and
    enc: "encode_adv P (config_adv e) (JSON_stringify P (JArr (array_value e a))) w = (Inr raw, w1)" and
    w': "w' = rename (path @ ''.tmp'') path (writeFile (path @ ''.tmp'') raw w1)" by blast
  have f1: "files w1 = files w"
    using files_encode_adv[of P "config_adv e" "JSON_stringify P (JArr (array_value e a))" w] enc by simp
  have o1: "observed w1 = observed w"
    using observed_encode_adv[of P "config_adv e" "JSON_stringify P (JArr (array_value e a))" w] enc by simp
  have final: "(files w)(path @ ''.tmp'' \<mapsto> raw, path \<mapsto> raw, path @ ''.tmp'' := None)
                = (files w)(path @ ''.tmp'' := None, path \<mapsto> raw)"
    by (rule ext) simp
  have obs: "observed w' = observed w
                @ map (\<lambda>n. (files w)(path @ ''.tmp'' \<mapsto> take n raw)) [0..<Suc (length raw)]
                @ [(files w)(path @ ''.tmp'' := None, path \<mapsto> raw)]"
    unfolding w' using f1 o1 final by (simp add: rename_def writeFile_def)
  have fin: "files w' = (files w)(path @ ''.tmp'' := None, path \<mapsto> raw)"
    unfolding w' using f1 final by (simp add: rename_def writeFile_def)
  have "\<forall>s\<in>set (drop (length (observed w)) (observed w')). s path = files w path \<or> s path = Some raw"
    unfolding obs by auto
  with p enc obs fin show ?thesis by simp
qed

theorem saveFile_adv_atomic_witness:
  "fst (saveFile_adv sample_platform ''notes'' 0 (sample_engine ''plain'')
          (sample_world [''db/notes.tdbx'' \<mapsto> ''old''])) = Inr ()
   \<and> files (snd (snd (saveFile_adv sample_platform ''notes'' 0 (sample_engine ''plain'')
          (sample_world [''db/notes.tdbx'' \<mapsto> ''old''])))) ''db/notes.tdbx'' = Some ''[]''
   \<and> list_all (\<lambda>s. s ''db/notes.tdbx'' = Some ''old'' \<or> s ''db/notes.tdbx'' = Some ''[]'')
        (observed (snd (snd (saveFile_adv sample_platform ''notes'' 0 (sample_engine ''plain'')
          (sample_world [''db/notes.tdbx'' \<mapsto> ''old''])))))
   \<and> length (observed (snd (snd (saveFile_adv sample_platform ''notes'' 0 (sample_engine ''plain'')
          (sample_world [''db/notes.tdbx'' \<mapsto> ''old'']))))) = 4"
proof -
  define e where "e = sample_engine ''plain''"
  define w where "w = sample_world [''db/notes.tdbx'' \<mapsto> ''old'']"
  define r where "r = saveFile_adv sample_platform ''notes'' 0 e w"
  have ok: "fst r = Inr ()" unfolding r_def e_def w_def by (rule sample_save_adv_plain)
  then have saved: "saveFile_adv sample_platform ''notes'' 0 e w = (Inr (), fst (snd r), snd (snd r))"
    unfolding r_def by (simp add: prod_eq_iff)
  have p: "getCollectionPath (config_adv e) ''notes'' = Inr ''db/notes.tdbx''"
    unfolding e_def by (rule sample_path_adv)
  have enc: "encode_adv sample_platform (config_adv e)
               (JSON_stringify sample_platform (JArr (array_value e 0))) w = (Inr ''[]'', w)"
    unfolding e_def by (simp add: encode_adv_def sample_mode_adv sample_array_adv sample_text_empty)
  have ow: "observed w = []" and fw: "files w ''db/notes.tdbx'' = Some ''old''"
    by (simp_all add: w_def sample_world_def)
  from saveFile_adv_atomic [OF saved] obtain path raw where
    1: "getCollectionPath (config_adv e) ''notes'' = Inr path" and
    2: "fst (encode_adv sample_platform (config_adv e)
               (JSON_stringify sample_platform (JArr (array_value e 0))) w) = Inr raw" and
    3: "observed (snd (snd r)) = observed w
                @ map (\<lambda>n. (files w)(path @ ''.tmp'' \<mapsto> take n raw)) [0..<Suc (length raw)]
                @ [(files w)(path @ ''.tmp'' := None, path \<mapsto> raw)]" and
    4: "files (snd (snd r)) = (files w)(path @ ''.tmp'' := None, path \<mapsto> raw)" and
    5: "\<forall>s\<in>set (drop (length (observed w)) (observed (snd (snd r)))).
                 s path = files w path \<or> s path = Some raw"
    by blast
  from 1 p have path: "path = ''db/notes.tdbx''" by simp
  from 2 enc have raw: "raw = ''[]''" by simp
  have a: "files (snd (snd r)) ''db/notes.tdbx'' = Some ''[]''"
    unfolding 4 path raw by simp
  have b: "list_all (\<lambda>s. s ''db/notes.tdbx'' = Some ''old'' \<or> s ''db/notes.tdbx'' = Some ''[]'')
             (observed (snd (snd r)))"
    using 5 unfolding path raw ow fw by (simp add: list_all_iff)
  have c: "length (observed (snd (snd r))) = 4"
    unfolding 3 raw ow by simp
  from ok a b c show ?thesis unfolding r_def e_def w_def by (intro conjI)
qed

text \<open>
  The examples and the basic engine write the collection file in place (the examples
  engine after copying it to \<open><path>.backup\<close>): there is no \<open><path>.tmp\<close> and no rename, and
  while the write goes on a reader can find the collection file empty.
\<close>

theorem direct_write_counterexample:
  "list_ex (\<lambda>s. s (collectionPath (sample_config ''plain'') ''notes'') = Some [])
     (observed (snd (saveFile_ex sample_platform (sample_config ''plain'') ''notes'' []
        (sample_world [collectionPath (sample_config ''plain'') ''notes'' \<mapsto> ''old'']))))
   \<and> files (snd (saveFile_ex sample_platform (sample_config ''plain'') ''notes'' []
        (sample_world [collectionPath (sample_config ''plain'') ''notes'' \<mapsto> ''old''])))
        (collectionPath (sample_config ''plain'') ''notes'' @ ''.tmp'') = None
   \<and> list_ex (\<lambda>s. s (collectionPath (sample_config ''plain'') ''notes'') = Some [])
     (observed (snd (saveFile_src sample_platform (sample_config ''plain'') ''notes'' []
        (sample_world [collectionPath (sample_config ''plain'') ''notes'' \<mapsto> ''old'']))))
   \<and> files (snd (saveFile_src sample_platform (sample_config ''plain'') ''notes'' []
        (sample_world [collectionPath (sample_config ''plain'') ''notes'' \<mapsto> ''old''])))
        (collectionPath (sample_config ''plain'') ''notes'' @ ''.tmp'') = None"
proof -
  define cfg where "cfg = sample_config ''plain''"
  define p where "p = collectionPath cfg ''notes''"
  define w where "w = sample_world [p \<mapsto> ''old'']"
  have m: "mode cfg \<noteq> ''encrypted''" unfolding cfg_def by (rule sample_plain_mode)
  have stored: "files w (collectionPath cfg ''notes'') = Some ''old''"
    by (simp add: w_def p_def sample_world_def)
  have tmp: "files w (p @ ''.tmp'') = None" by (simp add: w_def sample_world_def)
  note ex = saveFile_ex_observed[OF m stored, of sample_platform "[]", folded p_def]
  note src = saveFile_src_observed[OF m, of sample_platform "''notes''" "[]" w, folded p_def]
  have 1: "list_ex (\<lambda>s. s p = Some []) (observed (snd (saveFile_ex sample_platform cfg ''notes'' [] w)))"
    unfolding ex(1) by (rule list_ex_first2) simp
  have 2: "files (snd (saveFile_ex sample_platform cfg ''notes'' [] w)) (p @ ''.tmp'') = None"
    unfolding ex(2) using tmp by simp
  have 3: "list_ex (\<lambda>s. s p = Some []) (observed (snd (saveFile_src sample_platform cfg ''notes'' [] w)))"
    unfolding src(1) by (rule list_ex_first) simp
  have 4: "files (snd (saveFile_src sample_platform cfg ''notes'' [] w)) (p @ ''.tmp'') = None"
    unfolding src(2) using tmp by simp
  from 1 2 3 4 show ?thesis unfolding w_def p_def cfg_def by (intro conjI)
qed

subsection \<open>The envelope of an encrypted save\<close>

text \<open>
  Claim C3, as the advanced engine has it. In encrypted mode a successful \<open>saveFile\<close>
  leaves in the collection file three hexadecimal fields joined by \<open>:\<close>, the salt, the
  vector and the cipher text. Salt and vector are the next sixteen and the sixteen after
  those of the bytes of the random generator, thirty-two new bytes for every save; the key
  is \<open>pbkdf2Sync(passphrase, salt, 100000, 32, 'sha256')\<close>.
\<close>

theorem encrypted_save_envelope_adv:
  assumes "mode (config_adv e) = ''encrypted''"
    and "saveFile_adv P c a e w = (Inr (), e', w')"
  shows "\<exists>path encrypted.
           getCollectionPath (config_adv e) c = Inr path
         \<and> cipher P (pbkdf2Sync P (encryptionKey (config_adv e))
                        (map (random_source P) [drawn w..<drawn w + 16]) 100000 32 ''sha256'')
                    (map (random_source P) [drawn w + 16..<drawn w + 32])
                    (JSON_stringify P (JArr (array_value e a))) = Some encrypted
         \<and> files w' path
               = Some (hex_encode (map (random_source P) [drawn w..<drawn w + 16]) @ '':''
                       @ hex_encode (map (random_source P) [drawn w + 16..<drawn w + 32]) @ '':''
                       @ hex_encode encrypted)
         \<and> map_option (split_on CHR '':'') (files w' path)
               = Some [hex_encode (map (random_source P) [drawn w..<drawn w + 16]),
                       hex_encode (map (random_source P) [drawn w + 16..<drawn w + 32]),
                       hex_encode encrypted]
         \<and> length (map (random_source P) [drawn w..<drawn w + 16]) = 16
         \<and> length (map (random_source P) [drawn w + 16..<drawn w + 32]) = 16
         \<and> drawn w' = drawn w + 32"
proof -
  from saveFile_adv_world[OF assms(2)] obtain path raw w1 where
    p: "getCollectionPath (config_adv e) c = Inr path" and
    enc: "encode_adv P (config_adv e) (JSON_stringify P (JArr (array_value e a))) w = (Inr raw, w1)" and
    w': "w' = rename (path @ ''.tmp'') path (writeFile (path @ ''.tmp'') raw w1)" by blast
  from enc assms(1) have "encrypt_adv P (config_adv e) (JSON_stringify P (JArr (array_value e a))) w = (Inr raw, w1)"
    by (simp add: encode_adv_def)
  from encrypt_adv_envelope[OF this] obtain encrypted where
    c: "cipher P (pbkdf2Sync P (encryptionKey (config_adv e))
                        (map (random_source P) [drawn w..<drawn w + 16]) 100000 32 ''sha256'')
                    (map (random_source P) [drawn w + 16..<drawn w + 32])
                    (JSON_stringify P (JArr (array_value e a))) = Some encrypted" and
    raw: "raw = hex_encode (map (random_source P) [drawn w..<drawn w + 16]) @ '':''
                 @ hex_encode (map (random_source P) [drawn w + 16..<drawn w + 32]) @ '':''
                 @ hex_encode encrypted" and
    sp: "split_on CHR '':'' raw
               = [hex_encode (map (random_source P) [drawn w..<drawn w + 16]),
                  hex_encode (map (random_source P) [drawn w + 16..<drawn w + 32]),
                  hex_encode encrypted]" and
    d: "drawn w1 = drawn w + 32" by blast
  have f: "files w' path = Some raw" unfolding w' by (simp add: files_rename files_writeFile)
  have dw: "drawn w' = drawn w + 32" unfolding w' using d by (simp add: drawn_rename drawn_writeFile)
  from p c f dw sp raw show ?thesis by simp
qed

theorem encrypted_save_envelope_adv_witness:
  "fst (saveFile_adv sample_platform ''notes'' 0 (sample_engine ''encrypted'') (sample_world Map.empty)) = Inr ()
   \<and> (\<exists>encrypted.
        map_option (split_on CHR '':'')
          (files (snd (snd (saveFile_adv sample_platform ''notes'' 0 (sample_engine ''encrypted'')
                              (sample_world Map.empty)))) ''db/notes.tdbx'')
        = Some [hex_encode (map (random_source sample_platform) [0..<16]),
                hex_encode (map (random_source sample_platform) [16..<32]),
                hex_encode encrypted])"
proof -
  define e where "e = sample_engine ''encrypted''"
  define w where "w = sample_world Map.empty"
  define r where "r = saveFile_adv sample_platform ''notes'' 0 e w"
  have ok: "fst r = Inr ()" unfolding r_def e_def w_def by (rule sample_save_adv_encrypted)
  then have saved: "saveFile_adv sample_platform ''notes'' 0 e w = (Inr (), fst (snd r), snd (snd r))"
    unfolding r_def by (simp add: prod_eq_iff)
  have m: "mode (config_adv e) = ''encrypted''" unfolding e_def by (rule sample_mode_adv)
  have p: "getCollectionPath (config_adv e) ''notes'' = Inr ''db/notes.tdbx''"
    unfolding e_def by (rule sample_path_adv)
  have d: "drawn w = 0" by (simp add: w_def sample_world_def)
  from encrypted_save_envelope_adv [OF m saved] obtain path encrypted where
    1: "getCollectionPath (config_adv e) ''notes'' = Inr path" and
    2: "map_option (split_on CHR '':'') (files (snd (snd r)) path)
               = Some [hex_encode (map (random_source sample_platform) [drawn w..<drawn w + 16]),
                       hex_encode (map (random_source sample_platform) [drawn w + 16..<drawn w + 32]),
                       hex_encode encrypted]"
    by blast
  from 1 p have "path = ''db/notes.tdbx''" by simp
  with 2 d have "map_option (split_on CHR '':'') (files (snd (snd r)) ''db/notes.tdbx'')
               = Some [hex_encode (map (random_source sample_platform) [0..<16]),
                       hex_encode (map (random_source sample_platform) [16..<32]),
                       hex_encode encrypted]" by simp
  then have "\<exists>encrypted. map_option (split_on CHR '':'') (files (snd (snd r)) ''db/notes.tdbx'')
               = Some [hex_encode (map (random_source sample_platform) [0..<16]),
                       hex_encode (map (random_source sample_platform) [16..<32]),
                       hex_encode encrypted]" ..
  with ok show ?thesis unfolding r_def e_def w_def by (rule conjI)
qed

text \<open>
  The examples and the basic engine write two fields, the vector and the cipher text, and
  take the key from \<open>createHash('sha256')\<close> of the passphrase: no salt, no key derivation.
\<close>

theorem two_field_envelope_counterexample:
  "map_option (split_on CHR '':'')
     (files (snd (saveFile_ex sample_platform (sample_config ''encrypted'') ''notes'' [] (sample_world Map.empty)))
        (collectionPath (sample_config ''encrypted'') ''notes''))
     = Some [hex_encode (map (random_source sample_platform) [0..<16]), hex_encode (pkcs7_pad ''[]'')]
   \<and> map_option (split_on CHR '':'')
     (files (snd (saveFile_src sample_platform (sample_config ''encrypted'') ''notes'' [] (sample_world Map.empty)))
        (collectionPath (sample_config ''encrypted'') ''notes''))
     = Some [hex_encode (map (random_source sample_platform) [0..<16]), hex_encode (pkcs7_pad ''[]'')]"
proof -
  define cfg where "cfg = sample_config ''encrypted''"
  define w where "w = sample_world Map.empty"
  have m: "mode cfg = ''encrypted''" by (simp add: cfg_def sample_config_def)
  have d: "drawn w = 0" by (simp add: w_def sample_world_def)
  have c: "cipher sample_platform (sha256 sample_platform (encryptionKey cfg))
             (map (random_source sample_platform) [drawn w..<drawn w + 16])
             (JSON_stringify sample_platform (JArr [])) = Some (pkcs7_pad ''[]'')"
    by (simp add: sample_platform_def sample_stringify_def sample_documents_def d)
  have a: "map_option (split_on CHR '':'')
     (files (snd (saveFile_ex sample_platform cfg ''notes'' [] w)) (collectionPath cfg ''notes''))
     = Some [hex_encode (map (random_source sample_platform) [0..<16]), hex_encode (pkcs7_pad ''[]'')]"
    using saveFile_ex_envelope[OF m c, of "''notes''"] d by simp
  have b: "map_option (split_on CHR '':'')
     (files (snd (saveFile_src sample_platform cfg ''notes'' [] w)) (collectionPath cfg ''notes''))
     = Some [hex_encode (map (random_source sample_platform) [0..<16]), hex_encode (pkcs7_pad ''[]'')]"
    using saveFile_src_envelope[OF m c, of "''notes''"] d by simp
  from a b show ?thesis unfolding cfg_def w_def by (rule conjI)
qed

subsection \<open>A file that is not JSON\<close>




subsection \<open>Negation in filters\<close>

lemma matchFilter_adv_error:
  "matchFilter_adv r flt = Inl e \<Longrightarrow> e = TextDBXError ''FILTER_ERROR''"
  by (subst (asm) matchFilter_adv.simps) (auto simp: catch_filter_def split: if_splits sum.splits)

lemma member_singleton:
  "member (JObj [(k, v)]) k' = (if k' = k then v else JUndefined)"
  by (simp add: member_def)

text \<open>
  Claim C7, as the advanced engine has it. For every record \<open>r\<close> and every filter \<open>F\<close>
  that is an object (any truthy value), matching \<open>r\<close> against \<open>{$not: F}\<close> returns the
  negation of matching \<open>r\<close> against \<open>F\<close>, and throws what that match throws (always the
  \<open>FILTER_ERROR\<close>).
\<close>

theorem matchFilter_adv_not:
  assumes "truthy F"
  shows "matchFilter_adv r (JObj [(''$not'', F)]) =
           (case matchFilter_adv r F of Inl e \<Rightarrow> Inl e | Inr b \<Rightarrow> Inr (\<not> b))"
proof (cases "matchFilter_adv r F")
  case (Inl e)
  then have "e = TextDBXError ''FILTER_ERROR''" by (rule matchFilter_adv_error)
  with Inl assms show ?thesis
    by (subst matchFilter_adv.simps) (simp add: member_singleton catch_filter_def)
next
  case (Inr b)
  with assms show ?thesis
    by (subst matchFilter_adv.simps) (simp add: member_singleton catch_filter_def)
qed

theorem matchFilter_adv_not_witness:
  "truthy (JObj [(''a'', JNum 1)]) \<and>
   matchFilter_adv (JObj [(''a'', JNum 2)]) (JObj [(''a'', JNum 1)]) = Inr False \<and>
   matchFilter_adv (JObj [(''a'', JNum 2)]) (JObj [(''$not'', JObj [(''a'', JNum 1)])]) = Inr True"
proof -
  have t: "truthy (JObj [(''a'', JNum 1)])" by simp
  have m: "matchFilter_adv (JObj [(''a'', JNum 2)]) (JObj [(''a'', JNum 1)]) = Inr False"
    by (subst matchFilter_adv.simps) (simp add: member_def catch_filter_def matchKey_adv_def)
  show ?thesis
    using matchFilter_adv_not [OF t, of "JObj [(''a'', JNum 2)]"] t m by simp
qed

text \<open>
  The basic and the examples engine know no \<open>$not\<close>: they read it as the name of a
  field. The record \<open>{a: 2}\<close> does not match \<open>{a: 1}\<close>, and does not match
  \<open>{$not: {a: 1}}\<close> either.
\<close>

theorem matchFilter_not_counterexample:
  "matchFilter_ex (JObj [(''a'', JNum 2)]) (JObj [(''a'', JNum 1)]) = Inr False \<and>
   matchFilter_ex (JObj [(''a'', JNum 2)]) (JObj [(''$not'', JObj [(''a'', JNum 1)])]) = Inr False \<and>
   matchFilter_src (JObj [(''a'', JNum 2)]) (JObj [(''a'', JNum 1)]) = Inr False \<and>
   matchFilter_src (JObj [(''a'', JNum 2)]) (JObj [(''$not'', JObj [(''a'', JNum 1)])]) = Inr False"
  by (simp add: matchFilter_ex_def matchKey_ex_def matchFilter_src_def matchKey_src_def member_def)

subsection \<open>Projection\<close>






















subsection \<open>The absent and the empty filter\<close>

text \<open>
  Claim C9, for the examples and the basic engine. \<open>matchFilter\<close> accepts every row when
  the filter is absent or is the object with no keys. So, where the permission check (and,
  in the examples engine, the check of the collection name) passes, \<open>queryObject\<close> with no
  filter and no field list returns the records \<open>loadFile\<close> returns, all of them, and
  \<open>delete\<close> with the filter \<open>{}\<close> saves the empty array and, in the examples engine, returns
  the number of records there were.
\<close>

theorem empty_filter_matches_all:
  "matchFilter_ex r JUndefined = Inr True \<and> matchFilter_ex r (JObj []) = Inr True
   \<and> matchFilter_src r JUndefined = Inr True \<and> matchFilter_src r (JObj []) = Inr True
   \<and> (checkPermission_ex db ''query'' = Inr () \<and> validateCollectionName_ex c = Inr () \<longrightarrow>
        queryObject_ex P db \<lparr>collection_of = c, filter_of = JUndefined, fields_of = None\<rparr> w
          = (Inr (fst (loadFile_ex P (config db) c w)), snd (loadFile_ex P (config db) c w)))
   \<and> (checkPermission_ex db ''delete'' = Inr () \<and> validateCollectionName_ex c = Inr () \<longrightarrow>
        delete_ex P db c (JObj []) w
          = (case saveFile_ex P (config db) c [] (snd (loadFile_ex P (config db) c w)) of
               (Inl e, w2) \<Rightarrow> (Inl e, w2)
             | (Inr u, w2) \<Rightarrow> (Inr (length (fst (loadFile_ex P (config db) c w))), w2)))
   \<and> (checkPermission_src db ''query'' = Inr () \<and> loadFile_src P (config db) c w = Inr (JArr data) \<longrightarrow>
        queryObject_src P db \<lparr>collection_of = c, filter_of = JUndefined, fields_of = None\<rparr> w = Inr data)
   \<and> (checkPermission_src db ''delete'' = Inr () \<and> loadFile_src P (config db) c w = Inr (JArr data) \<longrightarrow>
        delete_src P db c (JObj []) w = saveFile_src P (config db) c [] w)"
proof -
  have q: "queryObject_ex P db \<lparr>collection_of = c, filter_of = JUndefined, fields_of = None\<rparr> w
          = (Inr (fst (loadFile_ex P (config db) c w)), snd (loadFile_ex P (config db) c w))"
    if "checkPermission_ex db ''query'' = Inr ()" "validateCollectionName_ex c = Inr ()"
    using that
    by (simp add: queryObject_ex_def matchFilter_absent filter_rows_all projectFields_ex_def
          map_rows_id split_beta)
  have d: "delete_ex P db c (JObj []) w
          = (case saveFile_ex P (config db) c [] (snd (loadFile_ex P (config db) c w)) of
               (Inl e, w2) \<Rightarrow> (Inl e, w2)
             | (Inr u, w2) \<Rightarrow> (Inr (length (fst (loadFile_ex P (config db) c w))), w2))"
    if "checkPermission_ex db ''delete'' = Inr ()" "validateCollectionName_ex c = Inr ()"
    using that
    by (simp add: delete_ex_def matchFilter_absent negate_def filter_rows_none split_beta split: sum.splits)
  have qs: "queryObject_src P db \<lparr>collection_of = c, filter_of = JUndefined, fields_of = None\<rparr> w = Inr data"
    if "checkPermission_src db ''query'' = Inr ()" "loadFile_src P (config db) c w = Inr (JArr data)"
    using that
    by (simp add: queryObject_src_def matchFilter_absent filter_rows_all projectFields_src_def map_rows_id)
  have ds: "delete_src P db c (JObj []) w = saveFile_src P (config db) c [] w"
    if "checkPermission_src db ''delete'' = Inr ()" "loadFile_src P (config db) c w = Inr (JArr data)"
    using that
    by (simp add: delete_src_def matchFilter_absent negate_def filter_rows_none)
  from q d qs ds matchFilter_absent show ?thesis by blast
qed

theorem empty_filter_matches_all_witness:
  "queryObject_ex sample_platform (sample_db ''plain'')
       \<lparr>collection_of = ''notes'', filter_of = JUndefined, fields_of = None\<rparr>
       (sample_world [collectionPath (sample_config ''plain'') ''notes''
                        \<mapsto> JSON_stringify sample_platform (JArr [JObj [(''x'', JNum 1)]])])
     = (Inr [JObj [(''x'', JNum 1)]],
        sample_world [collectionPath (sample_config ''plain'') ''notes''
                        \<mapsto> JSON_stringify sample_platform (JArr [JObj [(''x'', JNum 1)]])])
   \<and> fst (delete_ex sample_platform (sample_db ''plain'') ''notes'' (JObj [])
       (sample_world [collectionPath (sample_config ''plain'') ''notes''
                        \<mapsto> JSON_stringify sample_platform (JArr [JObj [(''x'', JNum 1)]])])) = Inr 1
   \<and> files (snd (delete_ex sample_platform (sample_db ''plain'') ''notes'' (JObj [])
       (sample_world [collectionPath (sample_config ''plain'') ''notes''
                        \<mapsto> JSON_stringify sample_platform (JArr [JObj [(''x'', JNum 1)]])])))
        (collectionPath (sample_config ''plain'') ''notes'') = Some ''[]''"
proof -
  define w where "w = sample_world [collectionPath (sample_config ''plain'') ''notes''
                        \<mapsto> JSON_stringify sample_platform (JArr [JObj [(''x'', JNum 1)]])]"
  define cfg where "cfg = sample_config ''plain''"
  have load: "loadFile_ex sample_platform cfg ''notes'' w = ([JObj [(''x'', JNum 1)]], w)"
    unfolding w_def cfg_def by (rule sample_load_x1)
  have enc: "encode_ex sample_platform cfg (JSON_stringify sample_platform (JArr [])) w = (Inr ''[]'', w)"
    using sample_plain_mode by (simp add: encode_ex_def cfg_def sample_text_empty)
  note s1 = files_saveFile_ex(1)[where c = "''notes''", OF enc]
  note s2 = files_saveFile_ex(2)[where c = "''notes''", OF enc]
  note t = empty_filter_matches_all [where db = "sample_db ''plain''" and c = "''notes''"
      and P = sample_platform and w = w and r = JNull and data = "[]"]
  note q = t[THEN conjunct2, THEN conjunct2, THEN conjunct2, THEN conjunct2, THEN conjunct1,
             THEN mp, OF conjI, OF sample_permissions(1) sample_name]
  note d = t[THEN conjunct2, THEN conjunct2, THEN conjunct2, THEN conjunct2, THEN conjunct2,
             THEN conjunct1, THEN mp, OF conjI, OF sample_permissions(3) sample_name]
  have 1: "queryObject_ex sample_platform (sample_db ''plain'')
       \<lparr>collection_of = ''notes'', filter_of = JUndefined, fields_of = None\<rparr> w
     = (Inr [JObj [(''x'', JNum 1)]], w)"
    using q load by (simp add: sample_config_db cfg_def)
  have del: "delete_ex sample_platform (sample_db ''plain'') ''notes'' (JObj []) w
       = (Inr 1, snd (saveFile_ex sample_platform cfg ''notes'' [] w))"
    using d load s1 by (simp add: sample_config_db cfg_def split: prod.splits sum.splits)
  have 2: "fst (delete_ex sample_platform (sample_db ''plain'') ''notes'' (JObj []) w) = Inr 1"
    using del by simp
  have 3: "files (snd (delete_ex sample_platform (sample_db ''plain'') ''notes'' (JObj []) w))
             (collectionPath cfg ''notes'') = Some ''[]''"
    using del s2 by (simp split: option.splits)
  from 1 2 3 show ?thesis unfolding w_def cfg_def by (intro conjI)
qed

subsection \<open>The backup of the previous version\<close>

text \<open>
  Claim C10, for the examples engine. When the collection file exists, a successful
  \<open>saveFile\<close> leaves the content the file had in \<open><path>.backup\<close>, and another reader
  sees first the backup being written, then the collection file. A successful \<open>insert\<close>,
  \<open>update\<close> or \<open>delete\<close> leaves in \<open><path>.backup\<close> the content the collection file had when
  the operation had loaded it, that is right before its write; this is the content from
  before the operation whenever that content was not blank, decoded and parsed.
\<close>

theorem saves_keep_previous_version_ex:
  assumes stored: "files w (collectionPath (config db) c) = Some old"
  shows "(saveFile_ex P (config db) c data w = (Inr (), w') \<longrightarrow>
            files w' (collectionPath (config db) c @ ''.backup'') = Some old
          \<and> (\<exists>raw. files w' (collectionPath (config db) c) = Some raw
               \<and> observed w' = observed w
                    @ map (\<lambda>n. (files w)(collectionPath (config db) c @ ''.backup'' \<mapsto> take n old))
                          [0..<Suc (length old)]
                    @ map (\<lambda>n. (files w)(collectionPath (config db) c @ ''.backup'' \<mapsto> old,
                                            collectionPath (config db) c \<mapsto> take n raw))
                          [0..<Suc (length raw)]))
       \<and> (insert_ex P db c r w = (Inr (), w') \<or> update_ex P db c f ch w = (Inr n, w')
            \<or> delete_ex P db c f w = (Inr n, w') \<longrightarrow>
            files w' (collectionPath (config db) c @ ''.backup'')
              = files (snd (loadFile_ex P (config db) c w)) (collectionPath (config db) c)
          \<and> files w' (collectionPath (config db) c @ ''.backup'') \<noteq> None
          \<and> (trim old \<noteq> [] \<and> decode_ex P (config db) old = Inr js \<and> JSON_parse P js = Some v \<longrightarrow>
                files w' (collectionPath (config db) c @ ''.backup'') = Some old))"
proof -
  let ?p = "collectionPath (config db) c"
  let ?w1 = "snd (loadFile_ex P (config db) c w)"
  have mutation: "files w' (?p @ ''.backup'') = files ?w1 ?p
      \<and> files w' (?p @ ''.backup'') \<noteq> None
      \<and> (trim old \<noteq> [] \<and> decode_ex P (config db) old = Inr js \<and> JSON_parse P js = Some v \<longrightarrow>
            files w' (?p @ ''.backup'') = Some old)"
    if "\<exists>d. saveFile_ex P (config db) c d ?w1 = (Inr (), w')"
  proof -
    from that obtain d where saved: "saveFile_ex P (config db) c d ?w1 = (Inr (), w')" ..
    from stored have "files ?w1 ?p \<noteq> None" by (intro loadFile_ex_keeps) simp
    then obtain old1 where old1: "files ?w1 ?p = Some old1" by auto
    from saveFile_ex_backup[OF old1 saved] have b: "files w' (?p @ ''.backup'') = Some old1" by simp
    have "files w' (?p @ ''.backup'') = Some old"
      if "trim old \<noteq> []" "decode_ex P (config db) old = Inr js" "JSON_parse P js = Some v"
      using loadFile_ex_reads[OF stored that] old1 b stored by simp
    with b old1 show ?thesis by simp
  qed
  have saves: "\<exists>d. saveFile_ex P (config db) c d ?w1 = (Inr (), w')"
    if "insert_ex P db c r w = (Inr (), w') \<or> update_ex P db c f ch w = (Inr n, w')
            \<or> delete_ex P db c f w = (Inr n, w')"
    using that
  proof (elim disjE)
    assume "insert_ex P db c r w = (Inr (), w')"
    then show ?thesis by (rule insert_ex_saves)
  next
    assume "update_ex P db c f ch w = (Inr n, w')"
    then show ?thesis by (rule update_ex_saves)
  next
    assume "delete_ex P db c f w = (Inr n, w')"
    then show ?thesis by (rule delete_ex_saves)
  qed
  show ?thesis
  proof (intro conjI impI)
    assume "saveFile_ex P (config db) c data w = (Inr (), w')"
    from saveFile_ex_backup[OF stored this]
    show "files w' (?p @ ''.backup'') = Some old" by (rule conjunct1)
  next
    assume "saveFile_ex P (config db) c data w = (Inr (), w')"
    from saveFile_ex_backup[OF stored this]
    show "\<exists>raw. files w' ?p = Some raw
               \<and> observed w' = observed w
                    @ map (\<lambda>n. (files w)(?p @ ''.backup'' \<mapsto> take n old)) [0..<Suc (length old)]
                    @ map (\<lambda>n. (files w)(?p @ ''.backup'' \<mapsto> old, ?p \<mapsto> take n raw))
                          [0..<Suc (length raw)]" by (rule conjunct2)
  next
    assume m: "insert_ex P db c r w = (Inr (), w') \<or> update_ex P db c f ch w = (Inr n, w')
            \<or> delete_ex P db c f w = (Inr n, w')"
    from mutation[OF saves[OF m]]
    show "files w' (?p @ ''.backup'') = files ?w1 ?p" by (rule conjunct1)
  next
    assume m: "insert_ex P db c r w = (Inr (), w') \<or> update_ex P db c f ch w = (Inr n, w')
            \<or> delete_ex P db c f w = (Inr n, w')"
    from mutation[OF saves[OF m], THEN conjunct2, THEN conjunct1]
    show "files w' (?p @ ''.backup'') \<noteq> None" .
  next
    assume m: "insert_ex P db c r w = (Inr (), w') \<or> update_ex P db c f ch w = (Inr n, w')
            \<or> delete_ex P db c f w = (Inr n, w')"
      and "trim old \<noteq> [] \<and> decode_ex P (config db) old = Inr js \<and> JSON_parse P js = Some v"
    with mutation[OF saves[OF m], THEN conjunct2, THEN conjunct2]
    show "files w' (?p @ ''.backup'') = Some old" by (elim impE)
  qed
qed

theorem saves_keep_previous_version_ex_witness:
  "fst (insert_ex sample_platform (sample_db ''plain'') ''notes'' (JObj [(''x'', JNum 2)])
          (sample_world [collectionPath (sample_config ''plain'') ''notes''
                           \<mapsto> JSON_stringify sample_platform (JArr [JObj [(''x'', JNum 1)]])])) = Inr ()
   \<and> files (snd (insert_ex sample_platform (sample_db ''plain'') ''notes'' (JObj [(''x'', JNum 2)])
          (sample_world [collectionPath (sample_config ''plain'') ''notes''
                           \<mapsto> JSON_stringify sample_platform (JArr [JObj [(''x'', JNum 1)]])])))
        (collectionPath (sample_config ''plain'') ''notes'' @ ''.backup'')
       = Some (JSON_stringify sample_platform (JArr [JObj [(''x'', JNum 1)]]))"
proof -
  define old where "old = JSON_stringify sample_platform (JArr [JObj [(''x'', JNum 1)]])"
  define w where "w = sample_world [collectionPath (sample_config ''plain'') ''notes'' \<mapsto> old]"
  define w' where "w' = snd (insert_ex sample_platform (sample_db ''plain'') ''notes'' (JObj [(''x'', JNum 2)]) w)"
  have ok: "fst (insert_ex sample_platform (sample_db ''plain'') ''notes'' (JObj [(''x'', JNum 2)]) w) = Inr ()"
    unfolding w_def old_def by (rule sample_insert_x2)
  then have ins: "insert_ex sample_platform (sample_db ''plain'') ''notes'' (JObj [(''x'', JNum 2)]) w = (Inr (), w')"
    unfolding w'_def by (simp add: prod_eq_iff)
  have stored: "files w (collectionPath (config (sample_db ''plain'')) ''notes'') = Some old"
    by (simp add: w_def sample_world_def sample_config_db)
  have nonblank: "trim old \<noteq> []" unfolding old_def by (rule sample_text_x1)
  have decoded: "decode_ex sample_platform (config (sample_db ''plain'')) old = Inr old"
    using sample_plain_mode by (simp add: decode_ex_def sample_config_db)
  have parsed: "JSON_parse sample_platform old = Some (JArr [JObj [(''x'', JNum 1)]])"
    unfolding old_def by (rule sample_codec_x1)
  note t = saves_keep_previous_version_ex [OF stored,
      where P = sample_platform and r = "JObj [(''x'', JNum 2)]" and w' = w' and js = old
        and v = "JArr [JObj [(''x'', JNum 1)]]" and data = "[]" and f = JNull and ch = JNull and n = 0]
  from t[THEN conjunct2, THEN mp, OF disjI1, OF ins, THEN conjunct2, THEN conjunct2, THEN mp,
         OF conjI, OF nonblank conjI, OF decoded parsed]
  have "files w' (collectionPath (config (sample_db ''plain'')) ''notes'' @ ''.backup'') = Some old" .
  with ok show ?thesis unfolding w'_def w_def old_def sample_config_db by (rule conjI)
qed

subsection \<open>Transactions of the advanced engine\<close>

text \<open>
  The advanced engine keeps, for every transaction, a list of operations and a snapshot per
  collection. No method of the class adds to the list: \<open>insert\<close>, \<open>update\<close> and \<open>delete\<close>
  take no transaction and write to storage at once, and none of them changes the table of
  transactions.
\<close>

lemma map_of_map_set: "map_of (map_set kvs k v) k = Some v"
  by (induction kvs) auto

lemma tx_new_array: "activeTransactions (snd (new_array rows e)) = activeTransactions e"
  by (simp add: new_array_def)

lemma tx_new_object: "activeTransactions (snd (new_object v e)) = activeTransactions e"
  by (simp add: new_object_def)

lemma tx_new_objects: "activeTransactions (snd (new_objects vs e)) = activeTransactions e"
  by (induction vs arbitrary: e) (simp_all add: split_beta tx_new_object)

lemma tx_updateCache:
  "updateCache c a t e w = Inr e' \<Longrightarrow> activeTransactions e' = activeTransactions e"
  by (auto simp: updateCache_def Let_def new_array_def split: if_splits option.splits sum.splits prod.splits)

lemma tx_readCollection:
  "activeTransactions (snd (readCollection_adv P c path raw e w)) = activeTransactions e"
proof -
  have n: "activeTransactions e2 = activeTransactions e"
    if "new_objects rows e = (addrs, e1)" "new_array addrs e1 = (a, e2)" for rows addrs e1 a e2
    using that tx_new_objects[of rows e] tx_new_array[of addrs e1] by simp
  show ?thesis
    by (auto simp: readCollection_adv_def n dest!: tx_updateCache
             split: sum.splits option.splits json.splits prod.splits)
qed

lemma tx_loadFile: "activeTransactions (snd (loadFile_adv P c e w)) = activeTransactions e"
  by (auto simp: loadFile_adv_def tx_readCollection new_array_def split: sum.splits option.splits)

lemma tx_saveFile: "activeTransactions (fst (snd (saveFile_adv P c a e w))) = activeTransactions e"
  by (auto simp: saveFile_adv_def Let_def dest!: tx_updateCache split: sum.splits prod.splits)

lemma tx_insertInternal:
  "activeTransactions (fst (snd (insertInternal P c r e w))) = activeTransactions e"
proof (cases "loadFile_adv P c e w")
  case (Pair res e1)
  have e1: "activeTransactions e1 = activeTransactions e" using tx_loadFile[of P c e w] Pair by simp
  show ?thesis
  proof (cases res)
    case (Inl err)
    with Pair e1 show ?thesis by (simp add: insertInternal_def)
  next
    case (Inr a)
    with Pair e1 show ?thesis
      by (simp add: insertInternal_def new_object_def tx_saveFile)
  qed
qed

lemma sample_engine_fields:
  "cache (sample_engine m) = []"
  "next_addr (sample_engine m) = 0"
  "arrays (sample_engine m) = (\<lambda>a. [])"
  "objects (sample_engine m) = (\<lambda>a. JUndefined)"
  "maxCacheSize (config_adv (sample_engine m)) = 100"
  "activeTransactions (sample_engine m) = []"
  by (simp_all add: sample_engine_def)

lemma sample_permission_adv: "checkPermission_adv (sample_engine m\<lparr>activeTransactions := X\<rparr>) ''insert'' = Inr ()"
  by (simp add: checkPermission_adv_def sample_engine_def)

lemma sample_load_adv:
  assumes "files w ''db/notes.tdbx'' = Some (JSON_stringify sample_platform (JArr [JObj [(''x'', JNum 1)]]))"
  shows "loadFile_adv sample_platform ''notes'' (sample_engine ''plain''\<lparr>activeTransactions := X\<rparr>) w
     = (Inr 1, sample_engine ''plain''
          \<lparr>cache := [(''notes'', \<lparr>data_of = 2, lastModified = mtimes w ''db/notes.tdbx'', accessCount = 1,
                                 lastAccessed = clock w\<rparr>)],
            activeTransactions := X,
            arrays := (\<lambda>a. [])(1 := [0], 2 := [0]),
            objects := (\<lambda>a. JUndefined)(0 := JObj [(''x'', JNum 1)]),
            next_addr := 3\<rparr>)"
  using assms
  by (simp add: loadFile_adv_def sample_path_adv sample_engine_fields sample_mode_adv
        readCollection_adv_def sample_codec_x1 new_object_def new_array_def updateCache_def Let_def
        numeral_3_eq_3 numeral_2_eq_2)


lemma sample_insert_adv:
  assumes "files w ''db/notes.tdbx'' = Some (JSON_stringify sample_platform (JArr [JObj [(''x'', JNum 1)]]))"
  shows "fst (insert_adv sample_platform ''notes'' (JObj [(''x'', JNum 2)])
                (sample_engine ''plain''\<lparr>activeTransactions := X\<rparr>) w) = Inr ()"
    and "files (snd (snd (insert_adv sample_platform ''notes'' (JObj [(''x'', JNum 2)])
                (sample_engine ''plain''\<lparr>activeTransactions := X\<rparr>) w))) ''db/notes.tdbx''
           = Some (JSON_stringify sample_platform (JArr [JObj [(''x'', JNum 1)], JObj [(''x'', JNum 2)]]))"
  by (simp_all add: insert_adv_def sample_permission_adv insertInternal_def sample_load_adv[OF assms]
        new_object_def saveFile_adv_def sample_path_adv sample_engine_fields sample_mode_adv
        encode_adv_def array_value_def updateCache_def new_array_def Let_def files_writeFile files_rename)

lemma sample_texts_differ:
  "JSON_stringify sample_platform (JArr [JObj [(''x'', JNum 1)], JObj [(''x'', JNum 2)]])
     \<noteq> JSON_stringify sample_platform (JArr [JObj [(''x'', JNum 1)]])"
  by (simp add: sample_platform_def sample_stringify_def sample_documents_def)

lemma sample_bad_name: "getCollectionPath cfg ''bad name'' = Inl (TextDBXError ''VALIDATION_ERROR'')"
  by (simp add: getCollectionPath_def validateCollectionName_adv_def name_char_def)

lemma matchFilter_adv_empty: "matchFilter_adv row (JObj []) = Inr True"
  by (simp add: matchFilter_adv.simps member_def catch_filter_def entries.simps)


lemma map_of_map_delete: "map_of (map_delete kvs k) k = None"
  by (simp add: map_delete_def map_of_eq_None_iff image_iff)

lemma rollback_rewrites_snapshot:
  assumes "map_of (activeTransactions e) tid = Some tx"
    and "backups tx = [(c, a)]"
    and "getCollectionPath (config_adv e) c = Inr path"
    and "mode (config_adv e) \<noteq> ''encrypted''"
    and "int (length (cache e)) < (if maxCacheSize (config_adv e) = 0 then 100 else maxCacheSize (config_adv e))"
  shows "fst (rollbackTransaction P tid e w) = Inr ()
         \<and> files (snd (snd (rollbackTransaction P tid e w))) path
              = Some (JSON_stringify P (JArr (array_value e a)))
         \<and> map_of (activeTransactions (fst (snd (rollbackTransaction P tid e w)))) tid = None"
proof -
  define json where "json = JSON_stringify P (JArr (array_value e a))"
  define w3 where "w3 = rename (path @ ''.tmp'') path (writeFile (path @ ''.tmp'') json w)"
  obtain e1 where u: "updateCache c a (clock w3) e w3 = Inr e1"
    using assms(5) by (auto simp: updateCache_def Let_def new_array_def split: if_splits)
  have s: "saveFile_adv P c a e w = (Inr (), e1, w3)"
    using assms(3,4) u by (simp add: saveFile_adv_def encode_adv_def Let_def json_def w3_def)
  have r: "rollbackTransaction P tid e w
             = (Inr (), e1\<lparr>activeTransactions := map_delete (activeTransactions e1) tid\<rparr>, w3)"
    using assms(1,2) s by (simp add: rollbackTransaction_def)
  have f: "files w3 path = Some json"
    by (simp add: w3_def files_rename files_writeFile)
  show ?thesis by (simp add: r f json_def map_of_map_delete)
qed

lemma sample_takeBackup:
  assumes "files w ''db/notes.tdbx'' = Some (JSON_stringify sample_platform (JArr [JObj [(''x'', JNum 1)]]))"
  shows "takeBackup sample_platform ''t'' ''notes''
           (sample_engine ''plain''\<lparr>activeTransactions := [(''t'', sample_pending)]\<rparr>) w
     = (Inr (), sample_engine ''plain''
          \<lparr>cache := [(''notes'', \<lparr>data_of = 2, lastModified = mtimes w ''db/notes.tdbx'', accessCount = 1,
                                 lastAccessed = clock w\<rparr>)],
            activeTransactions := [(''t'', sample_pending\<lparr>backups := [(''notes'', 3)]\<rparr>)],
            arrays := (\<lambda>a. [])(1 := [0], 2 := [0], 3 := [0]),
            objects := (\<lambda>a. JUndefined)(0 := JObj [(''x'', JNum 1)]),
            next_addr := 4\<rparr>)"
proof -
  have b: "backups sample_pending = []" by (simp add: sample_pending_def)
  show ?thesis
    by (simp add: takeBackup_def b sample_load_adv[OF assms] new_array_def)
qed

lemma sample_update_adv:
  assumes "files w ''db/notes.tdbx'' = Some raw"
  shows "\<exists>e1 w1. updateInternal sample_platform ''notes'' (JObj []) (JObj [(''x'', JNum 2)])
          (sample_engine ''plain''
            \<lparr>cache := [(''notes'', \<lparr>data_of = 2, lastModified = mtimes w ''db/notes.tdbx'', accessCount = 1,
                                   lastAccessed = clock w\<rparr>)],
              activeTransactions := X,
              arrays := (\<lambda>a. [])(1 := [0], 2 := [0], 3 := [0]),
              objects := (\<lambda>a. JUndefined)(0 := JObj [(''x'', JNum 1)]),
              next_addr := 4\<rparr>) w = (Inr (), e1, w1)
        \<and> activeTransactions e1 = X
        \<and> array_value e1 3 = [JObj [(''x'', JNum 2)]]
        \<and> config_adv e1 = config_adv (sample_engine ''plain'')
        \<and> length (cache e1) = 1"
  by (simp add: updateInternal_def loadFile_adv_def sample_path_adv assms Let_def
        matchFilter_adv_empty object_assign_def entries.simps obj_set_def
        saveFile_adv_def sample_mode_adv encode_adv_def updateCache_def sample_engine_fields
        array_value_def new_array_def)


lemma tx_updateLoop:
  "updateLoop_adv flt changes rows e = Inr e' \<Longrightarrow> activeTransactions e' = activeTransactions e"
proof (induction rows arbitrary: e)
  case Nil
  then show ?case by simp
next
  case (Cons row rows)
  then show ?case
    by (fastforce split: sum.splits bool.splits)
qed

lemma tx_updateInternal:
  "activeTransactions (fst (snd (updateInternal P c flt changes e w))) = activeTransactions e"
proof (cases "loadFile_adv P c e w")
  case (Pair res e1)
  have e1: "activeTransactions e1 = activeTransactions e" using tx_loadFile[of P c e w] Pair by simp
  show ?thesis
    using Pair e1
    by (auto simp: updateInternal_def tx_saveFile dest: tx_updateLoop split: sum.splits)
qed

lemma tx_deleteInternal:
  "activeTransactions (fst (snd (deleteInternal P c flt e w))) = activeTransactions e"
proof (cases "loadFile_adv P c e w")
  case (Pair res e1)
  have e1: "activeTransactions e1 = activeTransactions e" using tx_loadFile[of P c e w] Pair by simp
  show ?thesis
    using Pair e1
    by (auto simp: deleteInternal_def tx_saveFile new_array_def split: sum.splits)
qed

lemma rollback_without_snapshot:
  assumes "map_of (activeTransactions e) tid = Some tx"
    and "backups tx = []"
  shows "rollbackTransaction P tid e w
           = (Inr (), e\<lparr>activeTransactions := map_delete (activeTransactions e) tid\<rparr>, w)"
  using assms by (simp add: rollbackTransaction_def)

lemma beginTransaction_pending:
  assumes "beginTransaction P e w = (tid, e1, w1)"
  shows "map_of (activeTransactions e1) tid = Some \<lparr>operations = [], backups = [], status = ''pending''\<rparr>"
  using assms by (auto simp: beginTransaction_def map_of_map_set split: prod.splits)

lemma rollback_keeps_update:
  assumes "beginTransaction P e w = (tid, e1, w1)"
    and "update_adv P c flt changes e1 w1 = (res, e2, w2)"
  shows "rollbackTransaction P tid e2 w2
           = (Inr (), e2\<lparr>activeTransactions := map_delete (activeTransactions e2) tid\<rparr>, w2)"
proof -
  have "activeTransactions e2 = activeTransactions e1"
    using assms(2) tx_updateInternal[of P c flt changes e1 w1]
    by (auto simp: update_adv_def split: sum.splits)
  with beginTransaction_pending[OF assms(1)]
  have "map_of (activeTransactions e2) tid = Some \<lparr>operations = [], backups = [], status = ''pending''\<rparr>"
    by simp
  then show ?thesis
    by (rule rollback_without_snapshot) simp
qed

lemma rollback_keeps_delete:
  assumes "beginTransaction P e w = (tid, e1, w1)"
    and "delete_adv P c flt e1 w1 = (res, e2, w2)"
  shows "rollbackTransaction P tid e2 w2
           = (Inr (), e2\<lparr>activeTransactions := map_delete (activeTransactions e2) tid\<rparr>, w2)"
proof -
  have "activeTransactions e2 = activeTransactions e1"
    using assms(2) tx_deleteInternal[of P c flt e1 w1]
    by (auto simp: delete_adv_def split: sum.splits)
  with beginTransaction_pending[OF assms(1)]
  have "map_of (activeTransactions e2) tid = Some \<lparr>operations = [], backups = [], status = ''pending''\<rparr>"
    by simp
  then show ?thesis
    by (rule rollback_without_snapshot) simp
qed

text \<open>
  What \<open>rollbackTransaction\<close> writes for a snapshot is the present value of the snapshot
  array. The snapshot is \<open>[...currentData]\<close>, a copy of the array that shares the rows, and
  \<open>updateInternal\<close> changes the rows in place; so when a commit fails after an update, the
  file is rewritten with the updated rows.
\<close>

lemma failed_commit_keeps_update:
  "fst (commitTransaction sample_platform ''t''
          (sample_engine ''plain''\<lparr>activeTransactions := [(''t'', sample_pending)]\<rparr>)
          (sample_world [''db/notes.tdbx'' \<mapsto> JSON_stringify sample_platform (JArr [JObj [(''x'', JNum 1)]])]))
     = Inl (TextDBXError ''TRANSACTION_ERROR'')
   \<and> files (snd (snd (commitTransaction sample_platform ''t''
          (sample_engine ''plain''\<lparr>activeTransactions := [(''t'', sample_pending)]\<rparr>)
          (sample_world [''db/notes.tdbx'' \<mapsto> JSON_stringify sample_platform (JArr [JObj [(''x'', JNum 1)]])]))))
        ''db/notes.tdbx''
     = Some (JSON_stringify sample_platform (JArr [JObj [(''x'', JNum 2)]]))
   \<and> map_of (activeTransactions (fst (snd (commitTransaction sample_platform ''t''
          (sample_engine ''plain''\<lparr>activeTransactions := [(''t'', sample_pending)]\<rparr>)
          (sample_world [''db/notes.tdbx'' \<mapsto> JSON_stringify sample_platform (JArr [JObj [(''x'', JNum 1)]])])))))
        ''t'' = None"
proof -
  define t1 where "t1 = JSON_stringify sample_platform (JArr [JObj [(''x'', JNum 1)]])"
  define w0 where "w0 = sample_world [''db/notes.tdbx'' \<mapsto> t1]"
  define e0 where "e0 = sample_engine ''plain''\<lparr>activeTransactions := [(''t'', sample_pending)]\<rparr>"
  define tx where "tx = sample_pending\<lparr>backups := [(''notes'', 3)]\<rparr>"
  define op1 where "op1 = \<lparr>op_type = ''update'', op_collection = ''notes'', op_data = JUndefined,
          op_filter = JObj [], op_changes = JObj [(''x'', JNum 2)]\<rparr>"
  define op2 where "op2 = \<lparr>op_type = ''insert'', op_collection = ''bad name'', op_data = JObj [(''x'', JNum 1)],
          op_filter = JUndefined, op_changes = JUndefined\<rparr>"
  have ops: "operations sample_pending = [op1, op2]"
    by (simp add: sample_pending_def op1_def op2_def)
  have f: "files w0 ''db/notes.tdbx'' = Some (JSON_stringify sample_platform (JArr [JObj [(''x'', JNum 1)]]))"
    by (simp add: w0_def sample_world_def t1_def)
  from sample_update_adv[OF f, of "[(''t'', tx)]"]
  obtain e1 w1 where u: "updateInternal sample_platform ''notes'' (JObj []) (JObj [(''x'', JNum 2)])
          (sample_engine ''plain''
            \<lparr>cache := [(''notes'', \<lparr>data_of = 2, lastModified = mtimes w0 ''db/notes.tdbx'', accessCount = 1,
                                   lastAccessed = clock w0\<rparr>)],
              activeTransactions := [(''t'', tx)],
              arrays := (\<lambda>a. [])(1 := [0], 2 := [0], 3 := [0]),
              objects := (\<lambda>a. JUndefined)(0 := JObj [(''x'', JNum 1)]),
              next_addr := 4\<rparr>) w0 = (Inr (), e1, w1)"
    and a: "activeTransactions e1 = [(''t'', tx)]"
    and v: "array_value e1 3 = [JObj [(''x'', JNum 2)]]"
    and c: "config_adv e1 = config_adv (sample_engine ''plain'')"
    and l: "length (cache e1) = 1"
    by blast
  have o1: "op_type op1 = ''update''" "op_collection op1 = ''notes''" "op_filter op1 = JObj []"
    "op_changes op1 = JObj [(''x'', JNum 2)]"
    by (simp_all add: op1_def)
  note tb = sample_takeBackup[OF f, folded tx_def e0_def]
  have x1: "executeOperation sample_platform op1 ''t'' e0 w0 = (Inr (), e1, w1)"
    unfolding executeOperation_def o1 tb using u by simp
  have x2: "executeOperation sample_platform op2 ''t'' e1 w1 = (Inl (TextDBXError ''VALIDATION_ERROR''), e1, w1)"
    by (simp add: executeOperation_def takeBackup_def a tx_def op2_def loadFile_adv_def sample_bad_name)
  have xs: "executeOperations sample_platform (operations sample_pending) ''t'' e0 w0
              = (Inl (TextDBXError ''VALIDATION_ERROR''), e1, w1)"
    by (simp add: ops x1 x2)
  have m: "map_of (activeTransactions e1) ''t'' = Some tx" by (simp add: a)
  have b: "backups tx = [(''notes'', 3)]" by (simp add: tx_def)
  have p: "getCollectionPath (config_adv e1) ''notes'' = Inr ''db/notes.tdbx''"
    by (simp only: c sample_path_adv)
  have md: "mode (config_adv e1) \<noteq> ''encrypted''"
    by (simp add: c sample_mode_adv)
  have room: "int (length (cache e1)) < (if maxCacheSize (config_adv e1) = 0 then 100 else maxCacheSize (config_adv e1))"
    by (simp add: c l sample_engine_fields)
  note r = rollback_rewrites_snapshot[OF m b p md room, of sample_platform w1, unfolded v]
  have cm: "commitTransaction sample_platform ''t'' e0 w0
      = (Inl (TextDBXError ''TRANSACTION_ERROR''), snd (rollbackTransaction sample_platform ''t'' e1 w1))"
    by (simp add: commitTransaction_def e0_def xs[unfolded e0_def] split: prod.splits)
  show ?thesis
    unfolding e0_def[symmetric] t1_def[symmetric] w0_def[symmetric]
    using r by (simp add: cm)
qed

text \<open>
  Claim C5, for the advanced engine: the documented sequence begin, \<open>insert\<close>, rollback
  (\<open>examples/example.ts\<close>). The transaction that \<open>beginTransaction\<close> creates has no
  snapshot when the insert returns, so \<open>rollbackTransaction\<close> succeeds, removes the
  transaction and leaves storage as the insert left it: the collection keeps the inserted
  record and is not restored to its content from before the transaction.
\<close>

theorem rollback_keeps_insert:
  assumes "beginTransaction P e w = (tid, e1, w1)"
    and "insert_adv P c r e1 w1 = (res, e2, w2)"
  shows "rollbackTransaction P tid e2 w2
           = (Inr (), e2\<lparr>activeTransactions := map_delete (activeTransactions e2) tid\<rparr>, w2)"
proof -
  from assms(1) have "map_of (activeTransactions e1) tid
      = Some \<lparr>operations = [], backups = [], status = ''pending''\<rparr>"
    by (auto simp: beginTransaction_def map_of_map_set split: prod.splits)
  moreover have "activeTransactions e2 = activeTransactions e1"
    using assms(2) tx_insertInternal[of P c r e1 w1]
    by (auto simp: insert_adv_def split: sum.splits)
  ultimately show ?thesis by (simp add: rollbackTransaction_def)
qed

theorem rollback_keeps_insert_witness:
  "case beginTransaction sample_platform (sample_engine ''plain'')
          (sample_world [''db/notes.tdbx'' \<mapsto> JSON_stringify sample_platform (JArr [JObj [(''x'', JNum 1)]])]) of
     (tid, e1, w1) \<Rightarrow>
       (case insert_adv sample_platform ''notes'' (JObj [(''x'', JNum 2)]) e1 w1 of
          (res, e2, w2) \<Rightarrow>
            res = Inr ()
            \<and> fst (rollbackTransaction sample_platform tid e2 w2) = Inr ()
            \<and> files (snd (snd (rollbackTransaction sample_platform tid e2 w2))) ''db/notes.tdbx''
                = Some (JSON_stringify sample_platform (JArr [JObj [(''x'', JNum 1)], JObj [(''x'', JNum 2)]]))
            \<and> JSON_stringify sample_platform (JArr [JObj [(''x'', JNum 1)], JObj [(''x'', JNum 2)]])
                \<noteq> JSON_stringify sample_platform (JArr [JObj [(''x'', JNum 1)]]))"
proof -
  define t1 where "t1 = JSON_stringify sample_platform (JArr [JObj [(''x'', JNum 1)]])"
  define w0 where "w0 = sample_world [''db/notes.tdbx'' \<mapsto> t1]"
  obtain tid e1 w1 where b: "beginTransaction sample_platform (sample_engine ''plain'') w0 = (tid, e1, w1)"
    by (cases "beginTransaction sample_platform (sample_engine ''plain'') w0")
  obtain res e2 w2 where i: "insert_adv sample_platform ''notes'' (JObj [(''x'', JNum 2)]) e1 w1 = (res, e2, w2)"
    by (cases "insert_adv sample_platform ''notes'' (JObj [(''x'', JNum 2)]) e1 w1")
  from b obtain X where e1: "e1 = sample_engine ''plain''\<lparr>activeTransactions := X\<rparr>"
    and w1: "files w1 = files w0"
    by (auto simp: beginTransaction_def randomBytes_def)
  have f: "files w1 ''db/notes.tdbx'' = Some (JSON_stringify sample_platform (JArr [JObj [(''x'', JNum 1)]]))"
    by (simp add: w1 w0_def sample_world_def t1_def)
  note r = rollback_keeps_insert[OF b i]
  have "res = Inr ()"
    using sample_insert_adv(1)[OF f, of X] i by (simp add: e1)
  moreover have "files w2 ''db/notes.tdbx''
      = Some (JSON_stringify sample_platform (JArr [JObj [(''x'', JNum 1)], JObj [(''x'', JNum 2)]]))"
    using sample_insert_adv(2)[OF f, of X] i by (simp add: e1)
  ultimately show ?thesis
    unfolding w0_def[symmetric] t1_def[symmetric] using sample_texts_differ by (simp add: b i r t1_def)
qed

end
